theory Spec2Isabelle
  imports Complex_Main "HOL-Library.Word" "HOL-Library.Log_Nat"
begin

section \<open>Wall shear rate on the boundary surface of a volumetric mesh\<close>

text \<open>
  The development follows \<^verbatim>\<open>vtkvmtkMeshWallShearRate::RequestData\<close>
  (file \<^verbatim>\<open>vtkVmtk/Misc/vtkvmtkMeshWallShearRate.cxx\<close>). The filter takes a
  volumetric mesh with a velocity field, lets three other filters compute the velocity
  gradient, the boundary surface and the surface normals, and then computes one wall shear
  rate vector per surface point.

  A C++ \<^verbatim>\<open>double\<close> is modelled as a \<^typ>\<open>real\<close>: all statements below are
  about exact real arithmetic, not about rounding. A C array (\<^verbatim>\<open>double v[9]\<close>) is a
  list read with \<open>!\<close> and written with list update.
\<close>

subsection \<open>The arithmetic done at one surface point\<close>

text \<open>
  Lines 170 to 180: the nine assignments to \<^verbatim>\<open>shearRateTensor[a][b]\<close>, one list entry
  each, in the order of the source.
\<close>

definition TensorSymmetrizer :: "real list \<Rightarrow> real list list" where
  "TensorSymmetrizer velocityGradient =
     [[0.5 * (velocityGradient ! 0 + velocityGradient ! 0),
       0.5 * (velocityGradient ! 1 + velocityGradient ! 3),
       0.5 * (velocityGradient ! 2 + velocityGradient ! 6)],
      [0.5 * (velocityGradient ! 3 + velocityGradient ! 1),
       0.5 * (velocityGradient ! 4 + velocityGradient ! 4),
       0.5 * (velocityGradient ! 5 + velocityGradient ! 7)],
      [0.5 * (velocityGradient ! 6 + velocityGradient ! 2),
       0.5 * (velocityGradient ! 7 + velocityGradient ! 5),
       0.5 * (velocityGradient ! 8 + velocityGradient ! 8)]]"

text \<open>
  Lines 182 to 190: \<^verbatim>\<open>nSn\<close> starts at 0 and the two nested loops over
  \<^verbatim>\<open>alpha\<close> and \<^verbatim>\<open>beta\<close> subtract \<^verbatim>\<open>2.0 * S[alpha][beta] * normal[alpha] * normal[beta]\<close>.
\<close>

definition nSn :: "real list list \<Rightarrow> real list \<Rightarrow> real" where
  "nSn shearRateTensor normal =
     fold (\<lambda>alpha acc.
             fold (\<lambda>beta acc.
                     acc - 2.0 * shearRateTensor ! alpha ! beta * normal ! alpha * normal ! beta)
               [0..<3] acc)
       [0..<3] 0.0"

text \<open>
  Lines 196 to 200: for a fixed \<^verbatim>\<open>j\<close>, \<^verbatim>\<open>nS\<close> is reset to 0 and the loop over
  \<^verbatim>\<open>k\<close> subtracts \<^verbatim>\<open>2.0 * S[j][k] * normal[k]\<close>.
\<close>

definition nS :: "real list list \<Rightarrow> real list \<Rightarrow> nat \<Rightarrow> real" where
  "nS shearRateTensor normal j =
     fold (\<lambda>k acc. acc - 2.0 * shearRateTensor ! j ! k * normal ! k) [0..<3] 0.0"

text \<open>
  Lines 194 to 203: the loop over \<^verbatim>\<open>j\<close> stores \<^verbatim>\<open>nS - nSn * normal[j]\<close> in
  \<^verbatim>\<open>wallShearRate[j]\<close>. The buffer \<^verbatim>\<open>wallShearRate\<close> is a local array that is
  never initialised, so its previous content is an argument.
\<close>

definition NormalProjector :: "real list list \<Rightarrow> real list \<Rightarrow> real list \<Rightarrow> real list" where
  "NormalProjector shearRateTensor normal wallShearRate =
     fold (\<lambda>j w. w[j := nS shearRateTensor normal j - nSn shearRateTensor normal * normal ! j])
       [0..<3] wallShearRate"

subsection \<open>The reference formula, in the words of the specification\<close>

text \<open>
  The specification and the comment at line 158 of the source give the physical law
  \<open>tau = 2 * (S n - (n S n) n)\<close>. It is written here from those words, to be compared
  with what the loops compute.
\<close>

definition is3x3 :: "real list list \<Rightarrow> bool" where
  "is3x3 S \<longleftrightarrow> length S = 3 \<and> length (S ! 0) = 3 \<and> length (S ! 1) = 3 \<and> length (S ! 2) = 3"

definition symmetric3 :: "real list list \<Rightarrow> bool" where
  "symmetric3 S \<longleftrightarrow> S ! 0 ! 1 = S ! 1 ! 0 \<and> S ! 0 ! 2 = S ! 2 ! 0 \<and> S ! 1 ! 2 = S ! 2 ! 1"

definition dot3 :: "real list \<Rightarrow> real list \<Rightarrow> real" where
  "dot3 u v = u ! 0 * v ! 0 + u ! 1 * v ! 1 + u ! 2 * v ! 2"

definition matvec3 :: "real list list \<Rightarrow> real list \<Rightarrow> real list" where
  "matvec3 S n = [dot3 (S ! 0) n, dot3 (S ! 1) n, dot3 (S ! 2) n]"

definition tau_reference :: "real list list \<Rightarrow> real list \<Rightarrow> real list" where
  "tau_reference S n =
     [2 * (matvec3 S n ! 0 - dot3 n (matvec3 S n) * n ! 0),
      2 * (matvec3 S n ! 1 - dot3 n (matvec3 S n) * n ! 1),
      2 * (matvec3 S n ! 2 - dot3 n (matvec3 S n) * n ! 2)]"

subsection \<open>The symmetrizer in double precision\<close>

text \<open>
  The source computes with \<^verbatim>\<open>double\<close>, the binary64 format of IEEE 754. Where a
  statement depends on overflow, the nine assignments of lines 170 to 180 are read in that
  format. A finite double is an integer multiple \<open>k\<close> of \<open>2^-1074\<close>, the smallest
  positive double, and is written \<open>Finite k\<close>; a multiple is a double when its magnitude
  is at most that of the largest double, \<open>(2^53 - 1) * 2^971\<close>, and it needs no more than
  53 significant bits. The two zeros are not told apart (they compare equal).
\<close>

datatype double = Finite int | PlusInfinity | MinusInfinity | NaN

definition DBL_MAX :: int where
  "DBL_MAX = (2 ^ 53 - 1) * 2 ^ 2045"

definition isDouble :: "int \<Rightarrow> bool" where
  "isDouble k \<longleftrightarrow> \<bar>k\<bar> \<le> DBL_MAX \<and> 2 ^ nat (bitlen \<bar>k\<bar> - 53) dvd k"

text \<open>
  Rounding to nearest, ties to even (the default mode): \<open>roundHalfEven p s\<close> is the
  integer nearest to \<open>p / 2^s\<close>.
\<close>

definition roundHalfEven :: "int \<Rightarrow> nat \<Rightarrow> int" where
  "roundHalfEven p s =
     (let q = p div 2 ^ s; r = p mod 2 ^ s
      in if 2 * r < 2 ^ s then q
         else if 2 ^ s < 2 * r then q + 1
         else if even q then q else q + 1)"

text \<open>
  The double nearest to the exact value \<open>p * 2^-(1074 + t)\<close>: the value is rounded to 53
  significant bits, and to no less than a multiple of \<open>2^-1074\<close>; a rounded value beyond
  the largest double is an infinity.
\<close>

definition roundToDouble :: "int \<Rightarrow> nat \<Rightarrow> double" where
  "roundToDouble p t =
     (let s = max (nat (bitlen \<bar>p\<bar> - 53)) t;
          k = roundHalfEven p s * 2 ^ (s - t)
      in if DBL_MAX < k then PlusInfinity
         else if k < - DBL_MAX then MinusInfinity
         else Finite k)"

fun fadd :: "double \<Rightarrow> double \<Rightarrow> double" where
  "fadd (Finite a) (Finite b) = roundToDouble (a + b) 0"
| "fadd NaN y = NaN"
| "fadd x NaN = NaN"
| "fadd PlusInfinity MinusInfinity = NaN"
| "fadd MinusInfinity PlusInfinity = NaN"
| "fadd PlusInfinity y = PlusInfinity"
| "fadd x PlusInfinity = PlusInfinity"
| "fadd MinusInfinity y = MinusInfinity"
| "fadd x MinusInfinity = MinusInfinity"

fun fmul :: "double \<Rightarrow> double \<Rightarrow> double" where
  "fmul (Finite a) (Finite b) = roundToDouble (a * b) 1074"
| "fmul NaN y = NaN"
| "fmul x NaN = NaN"
| "fmul (Finite a) PlusInfinity = (if a = 0 then NaN else if 0 < a then PlusInfinity else MinusInfinity)"
| "fmul (Finite a) MinusInfinity = (if a = 0 then NaN else if 0 < a then MinusInfinity else PlusInfinity)"
| "fmul PlusInfinity (Finite b) = (if b = 0 then NaN else if 0 < b then PlusInfinity else MinusInfinity)"
| "fmul MinusInfinity (Finite b) = (if b = 0 then NaN else if 0 < b then MinusInfinity else PlusInfinity)"
| "fmul PlusInfinity PlusInfinity = PlusInfinity"
| "fmul PlusInfinity MinusInfinity = MinusInfinity"
| "fmul MinusInfinity PlusInfinity = MinusInfinity"
| "fmul MinusInfinity MinusInfinity = PlusInfinity"

text \<open>The comparison \<^verbatim>\<open>==\<close> of two doubles: a NaN equals nothing.\<close>

definition feq :: "double \<Rightarrow> double \<Rightarrow> bool" where
  "feq x y \<longleftrightarrow> x \<noteq> NaN \<and> y \<noteq> NaN \<and> x = y"

text \<open>The constant \<^verbatim>\<open>0.5\<close> is the double \<open>2^1073 * 2^-1074\<close>.\<close>

definition half :: double where
  "half = Finite (2 ^ 1073)"

text \<open>Lines 170 to 180 again, entry by entry, on doubles.\<close>

definition TensorSymmetrizer_double :: "double list \<Rightarrow> double list list" where
  "TensorSymmetrizer_double velocityGradient =
     [[fmul half (fadd (velocityGradient ! 0) (velocityGradient ! 0)),
       fmul half (fadd (velocityGradient ! 1) (velocityGradient ! 3)),
       fmul half (fadd (velocityGradient ! 2) (velocityGradient ! 6))],
      [fmul half (fadd (velocityGradient ! 3) (velocityGradient ! 1)),
       fmul half (fadd (velocityGradient ! 4) (velocityGradient ! 4)),
       fmul half (fadd (velocityGradient ! 5) (velocityGradient ! 7))],
      [fmul half (fadd (velocityGradient ! 6) (velocityGradient ! 2)),
       fmul half (fadd (velocityGradient ! 7) (velocityGradient ! 5)),
       fmul half (fadd (velocityGradient ! 8) (velocityGradient ! 8))]]"

text \<open>A symmetric tensor of finite doubles: the largest double on the diagonal, zero elsewhere.\<close>

definition overflowTensor :: "double list" where
  "overflowTensor =
     [Finite DBL_MAX, Finite 0, Finite 0,
      Finite 0, Finite DBL_MAX, Finite 0,
      Finite 0, Finite 0, Finite DBL_MAX]"

subsection \<open>Meshes and their point data\<close>

text \<open>
  Modelled from the spec: the mesh containers of the host framework (data arrays, point
  data, surface and volumetric meshes) are used by the source file and defined outside it.
  The specification describes a mesh as a point set, a connectivity and a mapping from field
  names to per-point fields, and a field as an ordered sequence of tuples, one per point.
  A data array has a name, a number of components and its tuples; the point data holds the
  arrays in insertion order and marks at most one of them as the normals.
\<close>

record dataArray =
  Name :: string
  NumberOfComponents :: nat
  Tuples :: "real list list"

record pointData =
  Arrays :: "dataArray list"
  NormalsAttribute :: "nat option"

record dataSet =
  Points :: "real list list"
  Cells :: "nat list list"
  PointData :: pointData
  CellData :: "dataArray list"

definition GetArray :: "pointData \<Rightarrow> string \<Rightarrow> dataArray option" where
  "GetArray pd name = find (\<lambda>a. Name a = name) (Arrays pd)"

definition GetNormals :: "pointData \<Rightarrow> dataArray option" where
  "GetNormals pd =
     (case NormalsAttribute pd of
        None \<Rightarrow> None
      | Some k \<Rightarrow> if k < length (Arrays pd) then Some (Arrays pd ! k) else None)"

definition GetNumberOfPoints :: "dataSet \<Rightarrow> nat" where
  "GetNumberOfPoints ds = length (Points ds)"

text \<open>
  Modelled from the spec: \<^verbatim>\<open>AddArray\<close> of the point-data container, which the source
  calls at line 208 and does not define. The specification fixes its policy: overwriting a
  prior field of the same name is the existing-array replacement policy, last writer wins.
  So an array whose name is already present takes the place of the first array of that name,
  and any other array is appended.
\<close>

fun replaceOrAppend :: "dataArray \<Rightarrow> dataArray list \<Rightarrow> dataArray list" where
  "replaceOrAppend a [] = [a]"
| "replaceOrAppend a (b # bs) = (if Name b = Name a then a # bs else b # replaceOrAppend a bs)"

definition AddArray :: "dataArray \<Rightarrow> pointData \<Rightarrow> pointData" where
  "AddArray a pd = pd\<lparr>Arrays := replaceOrAppend a (Arrays pd)\<rparr>"

text \<open>
  \<^verbatim>\<open>DeepCopy\<close> replaces the whole content of the output by a copy of its argument;
  with values instead of pointers the copy is the argument itself.
\<close>

definition DeepCopy :: "dataSet \<Rightarrow> dataSet" where
  "DeepCopy src = src"

subsection \<open>Undefined behaviour of the loop, as values\<close>

text \<open>
  The source calls \<^verbatim>\<open>GetTuple\<close> on two array pointers that it never checks. A null
  pointer, a tuple index past the end of the array and a tuple with more components than
  the local buffer holds are undefined behaviour in C++; the model stops with a fault there.
\<close>

datatype fault = NullPointerDereference | TupleIndexOutOfRange | BufferOverrun

text \<open>
  \<^verbatim>\<open>GetTuple(i, buffer)\<close> copies the components of tuple \<open>i\<close> to the front of the
  buffer and leaves the rest of the buffer as it was.
\<close>

definition GetTuple :: "dataArray option \<Rightarrow> nat \<Rightarrow> real list \<Rightarrow> fault + real list" where
  "GetTuple array i buffer =
     (case array of
        None \<Rightarrow> Inl NullPointerDereference
      | Some a \<Rightarrow>
          if length (Tuples a) \<le> i then Inl TupleIndexOutOfRange
          else if length buffer < length (Tuples a ! i) then Inl BufferOverrun
          else Inr (Tuples a ! i @ drop (length (Tuples a ! i)) buffer))"

text \<open>
  \<^verbatim>\<open>SetTuple(i, tuple)\<close> copies as many values as the array has components. The loop
  calls it with indices below the number of tuples that the array was given at line 148.
\<close>

definition SetTuple :: "nat \<Rightarrow> real list \<Rightarrow> dataArray \<Rightarrow> dataArray" where
  "SetTuple i tuple a = a\<lparr>Tuples := (Tuples a)[i := take (NumberOfComponents a) tuple]\<rparr>"

subsection \<open>The filter object\<close>

record vtkvmtkMeshWallShearRate =
  VelocityArrayName :: "string option"
  WallShearRateArrayName :: "string option"
  ComputeIndividualPartialDerivatives :: int
  ConvergenceTolerance :: real
  QuadratureOrder :: int

text \<open>The constructor, lines 41 to 48; a null name is \<open>None\<close>.\<close>

definition New :: vtkvmtkMeshWallShearRate where
  "New = \<lparr>VelocityArrayName = None, WallShearRateArrayName = None,
           ComputeIndividualPartialDerivatives = 0, ConvergenceTolerance = 1 / 10 ^ 6,
           QuadratureOrder = 3\<rparr>"

text \<open>
  The three filters that \<^verbatim>\<open>RequestData\<close> runs are not part of the source file; they are
  parameters of the model. The gradient filter receives the input mesh, the name of the
  velocity array, the name to give to the gradient array, the quadrature order, the
  convergence tolerance and the partial-derivatives flag; the normals filter receives the
  surface and its three switches (auto-orient, consistency, splitting).
\<close>

record collaborators =
  gradientFilter :: "dataSet \<Rightarrow> string \<Rightarrow> string \<Rightarrow> int \<Rightarrow> real \<Rightarrow> int \<Rightarrow> dataSet"
  geometryFilter :: "dataSet \<Rightarrow> dataSet"
  normalsFilter :: "dataSet \<Rightarrow> bool \<Rightarrow> bool \<Rightarrow> bool \<Rightarrow> dataSet"

text \<open>
  The two messages of \<^verbatim>\<open>vtkErrorMacro\<close>, under the names the specification gives them:
  \<open>ConfigurationError\<close> is "VelocityArrayName not specified" (line 85) and
  \<open>MissingFieldError\<close> is "VelocityArray with name specified does not exist" (line 93).
\<close>

datatype error = ConfigurationError | MissingFieldError

fun errorMessage :: "error \<Rightarrow> string" where
  "errorMessage ConfigurationError = ''VelocityArrayName not specified''"
| "errorMessage MissingFieldError = ''VelocityArray with name specified does not exist''"

text \<open>
  What a call of \<^verbatim>\<open>RequestData\<close> leaves behind: the integer it returns, the errors it
  reported and the content of the output mesh.
\<close>

record outcome =
  ReturnCode :: int
  Errors :: "error list"
  Output :: dataSet

subsection \<open>The loop over the surface points\<close>

text \<open>
  The local buffers are declared before the loop (lines 150 to 153) and live across its
  iterations, so they are part of the loop state, with the array under construction. The
  field \<open>written\<close> records the index of every \<^verbatim>\<open>SetTuple\<close> call, in order.
  The buffer \<^verbatim>\<open>shearRateTensor\<close> is assigned in full before it is read in every
  iteration and is not carried.
\<close>

record loopState =
  velocityGradient :: "real list"
  normal :: "real list"
  wallShearRate :: "real list"
  wallShearRateArray :: dataArray
  written :: "nat list"

definition perPoint :: "dataArray option \<Rightarrow> dataArray option \<Rightarrow> nat \<Rightarrow> loopState \<Rightarrow> fault + loopState" where
  "perPoint velocityGradientArray normalsArray i s =
     (case GetTuple velocityGradientArray i (velocityGradient s) of
        Inl f \<Rightarrow> Inl f
      | Inr g \<Rightarrow>
          (case GetTuple normalsArray i (normal s) of
             Inl f \<Rightarrow> Inl f
           | Inr n \<Rightarrow>
               (let w = NormalProjector (TensorSymmetrizer g) n (wallShearRate s)
                in Inr (s\<lparr>velocityGradient := g, normal := n, wallShearRate := w,
                          wallShearRateArray := SetTuple i w (wallShearRateArray s),
                          written := written s @ [i]\<rparr>))))"

fun pointLoop :: "dataArray option \<Rightarrow> dataArray option \<Rightarrow> nat list \<Rightarrow> loopState \<Rightarrow> fault + loopState" where
  "pointLoop velocityGradientArray normalsArray [] s = Inr s"
| "pointLoop velocityGradientArray normalsArray (i # rest) s =
     (case perPoint velocityGradientArray normalsArray i s of
        Inl f \<Rightarrow> Inl f
      | Inr s' \<Rightarrow> pointLoop velocityGradientArray normalsArray rest s')"

subsection \<open>RequestData\<close>

definition gradientArrayName :: string where
  "gradientArrayName = ''VelocityGradient''"

text \<open>
  Line 136 stores the point count, an id of the host framework, in an \<^verbatim>\<open>int\<close>: the
  value is kept up to \<open>2^31 - 1\<close> and wraps beyond.
\<close>

definition int_of_vtkIdType :: "nat \<Rightarrow> int" where
  "int_of_vtkIdType n = sint (word_of_nat n :: 32 word)"

text \<open>
  Memory that the source reads or hands out before writing it (the local buffers, the
  storage of the new array) has arbitrary content: the values of \<open>uninitialised\<close>.
\<close>

definition freshBuffer :: "(nat \<Rightarrow> real) \<Rightarrow> nat \<Rightarrow> real list" where
  "freshBuffer uninitialised k = map uninitialised [0..<k]"

text \<open>Lines 138 to 148: the new array, its name, 3 components and its tuples.\<close>

definition outputArrayName :: "vtkvmtkMeshWallShearRate \<Rightarrow> string" where
  "outputArrayName this =
     (case WallShearRateArrayName this of Some name \<Rightarrow> name | None \<Rightarrow> ''WallShearRate'')"

definition newWallShearRateArray :: "(nat \<Rightarrow> real) \<Rightarrow> vtkvmtkMeshWallShearRate \<Rightarrow> int \<Rightarrow> dataArray" where
  "newWallShearRateArray uninitialised this numberOfPoints =
     \<lparr>Name = outputArrayName this, NumberOfComponents = 3,
      Tuples = replicate (nat numberOfPoints) (freshBuffer uninitialised 3)\<rparr>"

text \<open>Lines 99 to 131: the chain of the three filters, ending in the surface with normals.\<close>

definition outputSurface :: "collaborators \<Rightarrow> vtkvmtkMeshWallShearRate \<Rightarrow> dataSet \<Rightarrow> string \<Rightarrow> dataSet" where
  "outputSurface co this input velocityArrayName =
     normalsFilter co
       (geometryFilter co
          (gradientFilter co input velocityArrayName gradientArrayName (QuadratureOrder this)
             (ConvergenceTolerance this) (ComputeIndividualPartialDerivatives this)))
       True True False"

text \<open>Lines 133 to 205: the arrays read, the new array and the loop \<open>i = 0, ..., numberOfPoints - 1\<close>.\<close>

definition wallShearRateLoop :: "(nat \<Rightarrow> real) \<Rightarrow> vtkvmtkMeshWallShearRate \<Rightarrow> dataSet \<Rightarrow> fault + loopState" where
  "wallShearRateLoop uninitialised this surface =
     (let velocityGradientArray = GetArray (PointData surface) gradientArrayName;
          normalsArray = GetNormals (PointData surface);
          numberOfPoints = int_of_vtkIdType (GetNumberOfPoints surface)
      in pointLoop velocityGradientArray normalsArray [0..<nat numberOfPoints]
           \<lparr>velocityGradient = freshBuffer uninitialised 9,
            normal = freshBuffer uninitialised 3,
            wallShearRate = freshBuffer uninitialised 3,
            wallShearRateArray = newWallShearRateArray uninitialised this numberOfPoints,
            written = []\<rparr>)"

text \<open>
  The whole of \<^verbatim>\<open>RequestData\<close>. Both early exits report an error and return 1 without
  touching the output (lines 83 to 95); the last two steps copy the surface into the output
  and add the new array to its point data (lines 207 and 208), and the function returns 1
  (line 214).
\<close>

definition RequestData :: "(nat \<Rightarrow> real) \<Rightarrow> collaborators \<Rightarrow> vtkvmtkMeshWallShearRate \<Rightarrow> dataSet \<Rightarrow> dataSet \<Rightarrow> fault + outcome" where
  "RequestData uninitialised co this input output =
     (case VelocityArrayName this of
        None \<Rightarrow> Inr \<lparr>ReturnCode = 1, Errors = [ConfigurationError], Output = output\<rparr>
      | Some name \<Rightarrow>
          (case GetArray (PointData input) name of
             None \<Rightarrow> Inr \<lparr>ReturnCode = 1, Errors = [MissingFieldError], Output = output\<rparr>
           | Some velocityArray \<Rightarrow>
               (let surface = outputSurface co this input name in
                case wallShearRateLoop uninitialised this surface of
                  Inl f \<Rightarrow> Inl f
                | Inr s \<Rightarrow>
                    Inr \<lparr>ReturnCode = 1, Errors = [],
                         Output = (DeepCopy surface)
                           \<lparr>PointData := AddArray (wallShearRateArray s) (PointData (DeepCopy surface))\<rparr>\<rparr>)))"

subsection \<open>A small mesh and stand-ins for the three filters\<close>

text \<open>
  Concrete inputs on which the definitions are evaluated: a volumetric mesh of two points
  with a velocity array, a gradient filter that adds a fixed gradient array under the name
  it is given, a geometry filter that keeps every point, and a normals filter that adds a
  normals array and marks it.
\<close>

definition exampleVolume :: dataSet where
  "exampleVolume =
     \<lparr>Points = [[0, 0, 0], [1, 0, 0]], Cells = [[0, 1]],
      PointData = \<lparr>Arrays = [\<lparr>Name = ''Velocity'', NumberOfComponents = 3,
                               Tuples = [[0, 0, 0], [0, 1, 0]]\<rparr>],
                   NormalsAttribute = None\<rparr>,
      CellData = []\<rparr>"

definition exampleGradientFilter :: "dataSet \<Rightarrow> string \<Rightarrow> string \<Rightarrow> int \<Rightarrow> real \<Rightarrow> int \<Rightarrow> dataSet" where
  "exampleGradientFilter input name gradientName order tolerance partials =
     input\<lparr>PointData := AddArray
       \<lparr>Name = gradientName, NumberOfComponents = 9,
        Tuples = [[0, 1, 0, 1, 0, 0, 0, 0, 0], [1, 2, 3, 4, 5, 6, 7, 8, 9]]\<rparr>
       (PointData input)\<rparr>"

definition exampleGeometryFilter :: "dataSet \<Rightarrow> dataSet" where
  "exampleGeometryFilter volume = volume"

definition exampleNormalsFilter :: "dataSet \<Rightarrow> bool \<Rightarrow> bool \<Rightarrow> bool \<Rightarrow> dataSet" where
  "exampleNormalsFilter surface autoOrient consistency splitting =
     surface\<lparr>PointData := (AddArray
       \<lparr>Name = ''Normals'', NumberOfComponents = 3, Tuples = [[1, 0, 0], [0, 0, 1]]\<rparr>
       (PointData surface))\<lparr>NormalsAttribute := Some (length (Arrays (PointData surface)))\<rparr>\<rparr>"

definition exampleCollaborators :: collaborators where
  "exampleCollaborators =
     \<lparr>gradientFilter = exampleGradientFilter, geometryFilter = exampleGeometryFilter,
      normalsFilter = exampleNormalsFilter\<rparr>"

definition exampleOutput :: dataSet where
  "exampleOutput = \<lparr>Points = [], Cells = [], PointData = \<lparr>Arrays = [], NormalsAttribute = None\<rparr>, CellData = []\<rparr>"

text \<open>The surface that the stand-in filters make of \<open>exampleVolume\<close>.\<close>

definition exampleSurface :: dataSet where
  "exampleSurface =
     \<lparr>Points = [[0, 0, 0], [1, 0, 0]], Cells = [[0, 1]],
      PointData = \<lparr>Arrays =
         [\<lparr>Name = ''Velocity'', NumberOfComponents = 3, Tuples = [[0, 0, 0], [0, 1, 0]]\<rparr>,
          \<lparr>Name = ''VelocityGradient'', NumberOfComponents = 9,
            Tuples = [[0, 1, 0, 1, 0, 0, 0, 0, 0], [1, 2, 3, 4, 5, 6, 7, 8, 9]]\<rparr>,
          \<lparr>Name = ''Normals'', NumberOfComponents = 3, Tuples = [[1, 0, 0], [0, 0, 1]]\<rparr>],
         NormalsAttribute = Some 2\<rparr>,
      CellData = []\<rparr>"

text \<open>
  A second volumetric mesh, which already carries an array under the default output name,
  and the surface that the stand-in filters make of it.
\<close>

definition staleVolume :: dataSet where
  "staleVolume =
     \<lparr>Points = [[0, 0, 0], [1, 0, 0]], Cells = [[0, 1]],
      PointData = \<lparr>Arrays =
         [\<lparr>Name = ''Velocity'', NumberOfComponents = 3, Tuples = [[0, 0, 0], [0, 1, 0]]\<rparr>,
          \<lparr>Name = ''WallShearRate'', NumberOfComponents = 3, Tuples = [[9, 9, 9], [9, 9, 9]]\<rparr>],
         NormalsAttribute = None\<rparr>,
      CellData = []\<rparr>"

definition staleSurface :: dataSet where
  "staleSurface =
     \<lparr>Points = [[0, 0, 0], [1, 0, 0]], Cells = [[0, 1]],
      PointData = \<lparr>Arrays =
         [\<lparr>Name = ''Velocity'', NumberOfComponents = 3, Tuples = [[0, 0, 0], [0, 1, 0]]\<rparr>,
          \<lparr>Name = ''WallShearRate'', NumberOfComponents = 3, Tuples = [[9, 9, 9], [9, 9, 9]]\<rparr>,
          \<lparr>Name = ''VelocityGradient'', NumberOfComponents = 9,
            Tuples = [[0, 1, 0, 1, 0, 0, 0, 0, 0], [1, 2, 3, 4, 5, 6, 7, 8, 9]]\<rparr>,
          \<lparr>Name = ''Normals'', NumberOfComponents = 3, Tuples = [[1, 0, 0], [0, 0, 1]]\<rparr>],
         NormalsAttribute = Some 3\<rparr>,
      CellData = []\<rparr>"

text \<open>Arbitrary memory content, and a filter object with the velocity array name set.\<close>

definition exampleMemory :: "nat \<Rightarrow> real" where
  "exampleMemory address = 7"

definition exampleFilter :: vtkvmtkMeshWallShearRate where
  "exampleFilter = New\<lparr>VelocityArrayName := Some ''Velocity''\<rparr>"

text \<open>
  A surface too large for an \<^verbatim>\<open>int\<close>: a volumetric mesh of \<open>2^32\<close> points, and
  stand-in filters that give every point the same gradient tuple and the same normal.
\<close>

definition uniformGradientFilter :: "dataSet \<Rightarrow> string \<Rightarrow> string \<Rightarrow> int \<Rightarrow> real \<Rightarrow> int \<Rightarrow> dataSet" where
  "uniformGradientFilter input name gradientName order tolerance partials =
     input\<lparr>PointData := AddArray
       \<lparr>Name = gradientName, NumberOfComponents = 9,
        Tuples = replicate (length (Points input)) [0, 1, 0, 1, 0, 0, 0, 0, 0]\<rparr>
       (PointData input)\<rparr>"

definition uniformNormalsFilter :: "dataSet \<Rightarrow> bool \<Rightarrow> bool \<Rightarrow> bool \<Rightarrow> dataSet" where
  "uniformNormalsFilter surface autoOrient consistency splitting =
     surface\<lparr>PointData := (AddArray
       \<lparr>Name = ''Normals'', NumberOfComponents = 3,
        Tuples = replicate (length (Points surface)) [0, 0, 1]\<rparr>
       (PointData surface))\<lparr>NormalsAttribute := Some (length (Arrays (PointData surface)))\<rparr>\<rparr>"

definition uniformCollaborators :: collaborators where
  "uniformCollaborators =
     \<lparr>gradientFilter = uniformGradientFilter, geometryFilter = exampleGeometryFilter,
      normalsFilter = uniformNormalsFilter\<rparr>"

definition hugeVolume :: dataSet where
  "hugeVolume =
     \<lparr>Points = replicate (2 ^ 32) [0, 0, 0], Cells = [],
      PointData = \<lparr>Arrays = [\<lparr>Name = ''Velocity'', NumberOfComponents = 3,
                               Tuples = replicate (2 ^ 32) [0, 0, 0]\<rparr>],
                   NormalsAttribute = None\<rparr>,
      CellData = []\<rparr>"

definition hugeSurface :: dataSet where
  "hugeSurface =
     \<lparr>Points = replicate (2 ^ 32) [0, 0, 0], Cells = [],
      PointData = \<lparr>Arrays =
         [\<lparr>Name = ''Velocity'', NumberOfComponents = 3, Tuples = replicate (2 ^ 32) [0, 0, 0]\<rparr>,
          \<lparr>Name = ''VelocityGradient'', NumberOfComponents = 9,
            Tuples = replicate (2 ^ 32) [0, 1, 0, 1, 0, 0, 0, 0, 0]\<rparr>,
          \<lparr>Name = ''Normals'', NumberOfComponents = 3, Tuples = replicate (2 ^ 32) [0, 0, 1]\<rparr>],
         NormalsAttribute = Some 2\<rparr>,
      CellData = []\<rparr>"

subsection \<open>The value at one point, as a function of the two tuples read there\<close>

text \<open>
  The vector that one iteration stores is the Normal Projector applied to the symmetrized
  gradient tuple and the normal tuple. \<open>pointValue\<close> runs the two on a zeroed result
  buffer, so that it depends on the two tuples and on nothing else.
\<close>

definition pointValue :: "real list \<Rightarrow> real list \<Rightarrow> real list" where
  "pointValue g n = NormalProjector (TensorSymmetrizer g) n [0, 0, 0]"

subsection \<open>Closed forms of the loops\<close>

lemma upt_0_3: "[0..<3] = [0, 1, 2]"
  by (simp add: upt_rec)

lemma all_less_3: "(\<forall>i<(3::nat). P i) \<longleftrightarrow> P 0 \<and> P 1 \<and> P 2"
proof
  assume "\<forall>i<3. P i"
  then show "P 0 \<and> P 1 \<and> P 2" by simp
next
  assume h: "P 0 \<and> P 1 \<and> P 2"
  show "\<forall>i<3. P i"
  proof (intro allI impI)
    fix i :: nat
    assume "i < 3"
    then consider "i = 0" | "i = 1" | "i = 2" by arith
    then show "P i" using h by cases simp_all
  qed
qed

lemma nSn_closed:
  "nSn S n = - 2 * (S ! 0 ! 0 * n ! 0 * n ! 0 + S ! 0 ! 1 * n ! 0 * n ! 1 + S ! 0 ! 2 * n ! 0 * n ! 2
                  + S ! 1 ! 0 * n ! 1 * n ! 0 + S ! 1 ! 1 * n ! 1 * n ! 1 + S ! 1 ! 2 * n ! 1 * n ! 2
                  + S ! 2 ! 0 * n ! 2 * n ! 0 + S ! 2 ! 1 * n ! 2 * n ! 1 + S ! 2 ! 2 * n ! 2 * n ! 2)"
  by (simp add: nSn_def upt_0_3)

lemma nS_closed: "nS S n j = - 2 * (S ! j ! 0 * n ! 0 + S ! j ! 1 * n ! 1 + S ! j ! 2 * n ! 2)"
  by (simp add: nS_def upt_0_3)

lemma length_3_cases:
  assumes "length (w :: 'a list) = 3"
  obtains a b c where "w = [a, b, c]"
proof -
  from assms obtain a w1 where 1: "w = a # w1" and "length w1 = 2"
    by (cases w) simp_all
  then obtain b w2 where 2: "w1 = b # w2" and "length w2 = 1"
    by (cases w1) simp_all
  then obtain c where 3: "w2 = [c]"
    by (cases w2) simp_all
  from 1 2 3 that show thesis by simp
qed

lemma NormalProjector_closed:
  assumes "length w0 = 3"
  shows "NormalProjector S n w0 =
           [nS S n 0 - nSn S n * n ! 0, nS S n 1 - nSn S n * n ! 1, nS S n 2 - nSn S n * n ! 2]"
proof -
  from assms obtain a b c where "w0 = [a, b, c]" by (rule length_3_cases)
  then show ?thesis by (simp add: NormalProjector_def upt_0_3)
qed

lemma dot3_NormalProjector:
  assumes "length w0 = 3"
  shows "dot3 (NormalProjector S n w0) n = nSn S n * (1 - dot3 n n)"
  by (simp add: NormalProjector_closed [OF assms] dot3_def nS_closed nSn_closed algebra_simps)

lemma NormalProjector_negates_reference:
  assumes "length w0 = 3"
  shows "NormalProjector S n w0 = map uminus (tau_reference S n)"
  by (simp add: NormalProjector_closed [OF assms] tau_reference_def matvec3_def dot3_def
      nS_closed nSn_closed algebra_simps)


lemma TensorSymmetrizer_entries:
  "\<forall>i<3. \<forall>j<3. TensorSymmetrizer g ! i ! j = 0.5 * (g ! (3 * i + j) + g ! (3 * j + i))"
  by (simp add: all_less_3 TensorSymmetrizer_def del: add_2_eq_Suc' add_2_eq_Suc)

lemma is3x3_TensorSymmetrizer: "is3x3 (TensorSymmetrizer g)"
  by (simp add: is3x3_def TensorSymmetrizer_def)

lemma upt_0_9: "[0..<9] = [0, 1, 2, 3, 4, 5, 6, 7, 8]"
  by (simp add: upt_rec)

section \<open>Double precision: lemmas\<close>

lemma roundHalfEven_exact: "2 ^ s dvd p \<Longrightarrow> roundHalfEven p s = p div 2 ^ s"
  by (simp add: roundHalfEven_def Let_def mod_eq_0_iff_dvd)

lemma div_power_exact:
  fixes p :: int
  assumes "2 ^ s dvd p" and "t \<le> s"
  shows "p div 2 ^ s * 2 ^ (s - t) = p div 2 ^ t"
proof -
  from assms(1) obtain c where p: "p = 2 ^ s * c" by (rule dvdE)
  have s: "(2::int) ^ s = 2 ^ t * 2 ^ (s - t)"
    using assms(2) by (simp flip: power_add)
  have "p div 2 ^ t = 2 ^ (s - t) * c"
    unfolding p s by (simp add: mult.assoc)
  moreover have "p div 2 ^ s = c"
    unfolding p by simp
  ultimately show ?thesis by (simp add: mult.commute)
qed

lemma roundToDouble_exact:
  assumes "2 ^ max (nat (bitlen \<bar>p\<bar> - 53)) t dvd p"
  shows "roundToDouble p t =
           (if DBL_MAX < p div 2 ^ t then PlusInfinity
            else if p div 2 ^ t < - DBL_MAX then MinusInfinity
            else Finite (p div 2 ^ t))"
proof -
  let ?s = "max (nat (bitlen \<bar>p\<bar> - 53)) t"
  have "roundHalfEven p ?s * 2 ^ (?s - t) = p div 2 ^ t"
    using assms by (simp only: roundHalfEven_exact div_power_exact max.cobounded2)
  then show ?thesis
    by (simp only: roundToDouble_def Let_def)
qed

lemma bitlen_shift:
  fixes x :: int
  assumes "x \<noteq> 0"
  shows "bitlen \<bar>x * 2 ^ c\<bar> = bitlen \<bar>x\<bar> + int c"
proof -
  have "\<bar>x * 2 ^ c\<bar> = \<bar>x\<bar> * 2 ^ c" by (simp add: abs_mult)
  moreover have "0 < \<bar>x\<bar>" using assms by simp
  ultimately show ?thesis by (simp only: bitlen_pow2)
qed

lemma shifted_dvd:
  fixes x :: int
  assumes "2 ^ nat (bitlen \<bar>x\<bar> - 53) dvd x"
  shows "2 ^ max (nat (bitlen \<bar>x * 2 ^ c\<bar> - 53)) c dvd x * 2 ^ c"
proof (cases "x = 0")
  case True
  then show ?thesis by simp
next
  case False
  have le: "max (nat (bitlen \<bar>x\<bar> + int c - 53)) c \<le> nat (bitlen \<bar>x\<bar> - 53) + c"
    by (simp add: nat_le_iff)
  have "(2::int) ^ (nat (bitlen \<bar>x\<bar> - 53) + c) dvd x * 2 ^ c"
    using assms by (simp add: power_add mult_dvd_mono)
  then have "(2::int) ^ max (nat (bitlen \<bar>x\<bar> + int c - 53)) c dvd x * 2 ^ c"
    using le power_le_dvd by blast
  then show ?thesis
    by (simp only: bitlen_shift [OF False])
qed

lemma roundToDouble_shifted:
  assumes "isDouble x"
  shows "roundToDouble (x * 2 ^ c) c = Finite x"
proof -
  from assms have d: "2 ^ nat (bitlen \<bar>x\<bar> - 53) dvd x" and b: "\<bar>x\<bar> \<le> DBL_MAX"
    by (simp_all add: isDouble_def)
  have "x * 2 ^ c div 2 ^ c = x" by simp
  moreover from b have "\<not> DBL_MAX < x" and "\<not> x < - DBL_MAX" by linarith+
  ultimately show ?thesis
    by (simp only: roundToDouble_exact [OF shifted_dvd [OF d, of c]] if_False)
qed

lemma fadd_self:
  assumes "isDouble x"
  shows "fadd (Finite x) (Finite x) =
           (if DBL_MAX < 2 * x then PlusInfinity
            else if 2 * x < - DBL_MAX then MinusInfinity
            else Finite (2 * x))"
proof -
  from assms have d: "2 ^ nat (bitlen \<bar>x\<bar> - 53) dvd x"
    by (simp add: isDouble_def)
  have eq: "x * 2 ^ 1 = x + x" by simp
  have big: "2 ^ max (nat (bitlen \<bar>x + x\<bar> - 53)) 1 dvd x + x"
    using shifted_dvd [OF d, of 1] unfolding eq .
  have "(2::int) ^ max (nat (bitlen \<bar>x + x\<bar> - 53)) 0 dvd 2 ^ max (nat (bitlen \<bar>x + x\<bar> - 53)) 1"
    by (rule le_imp_power_dvd) simp
  then have "2 ^ max (nat (bitlen \<bar>x + x\<bar> - 53)) 0 dvd x + x"
    using big by (rule dvd_trans)
  from roundToDouble_exact [OF this]
  have "roundToDouble (x + x) 0 =
           (if DBL_MAX < x + x then PlusInfinity
            else if x + x < - DBL_MAX then MinusInfinity
            else Finite (x + x))"
    by simp
  moreover have "2 * x = x + x" by simp
  ultimately show ?thesis
    by (simp only: fadd.simps)
qed

lemma fmul_half_twice:
  assumes "isDouble x"
  shows "fmul half (Finite (2 * x)) = Finite x"
proof -
  have "(2::int) ^ 1073 * (2 * x) = x * 2 ^ Suc 1073"
    by (simp only: power_Suc) (simp only: mult_ac)
  then have "(2::int) ^ 1073 * (2 * x) = x * 2 ^ 1074"
    by (simp only: eval_nat_numeral(3) [symmetric] Suc_numeral arith_simps add_num_simps)
  then show ?thesis
    unfolding half_def fmul.simps by (simp only: roundToDouble_shifted [OF assms])
qed

text \<open>
  A double whose double does not overflow comes back from \<^verbatim>\<open>0.5 * (x + x)\<close> unchanged;
  one whose double overflows comes back as an infinity.
\<close>

lemma half_of_sum_self:
  assumes "isDouble x" and "\<bar>2 * x\<bar> \<le> DBL_MAX"
  shows "fmul half (fadd (Finite x) (Finite x)) = Finite x"
proof -
  from assms(2) have "\<not> DBL_MAX < 2 * x" and "\<not> 2 * x < - DBL_MAX" by linarith+
  then have "fadd (Finite x) (Finite x) = Finite (2 * x)"
    by (simp only: fadd_self [OF assms(1)] if_False)
  then show ?thesis
    by (simp only: fmul_half_twice [OF assms(1)])
qed

lemma half_of_sum_self_overflow:
  assumes "isDouble x" and "DBL_MAX < 2 * x"
  shows "fmul half (fadd (Finite x) (Finite x)) = PlusInfinity"
proof -
  from assms(2) have "fadd (Finite x) (Finite x) = PlusInfinity"
    by (simp only: fadd_self [OF assms(1)] if_True)
  moreover have "fmul half PlusInfinity = PlusInfinity"
  proof -
    have "(0::int) < 2 ^ 1073" by (rule zero_less_power) simp
    then show ?thesis
      unfolding half_def fmul.simps by (simp only: if_True if_False less_irrefl
          order_less_imp_not_eq2)
  qed
  ultimately show ?thesis by (simp only:)
qed

lemma bitlen_53_ones: "bitlen (2 ^ 53 - 1) = 53"
  by code_simp

lemma DBL_MAX_positive: "0 < DBL_MAX"
  unfolding DBL_MAX_def by (intro mult_pos_pos zero_less_power) simp_all

lemma isDouble_DBL_MAX: "isDouble DBL_MAX"
proof -
  have "bitlen \<bar>DBL_MAX\<bar> = bitlen \<bar>(2 ^ 53 - 1 :: int)\<bar> + int 2045"
    unfolding DBL_MAX_def by (rule bitlen_shift) simp
  also have "\<bar>(2 ^ 53 - 1 :: int)\<bar> = 2 ^ 53 - 1" by simp
  finally have "nat (bitlen \<bar>DBL_MAX\<bar> - 53) = 2045"
    by (simp only: bitlen_53_ones)
  moreover have "(2::int) ^ 2045 dvd DBL_MAX"
    unfolding DBL_MAX_def by (rule dvd_triv_right)
  ultimately show ?thesis
    using DBL_MAX_positive by (simp only: isDouble_def) simp
qed

lemma isDouble_0: "isDouble 0"
  using DBL_MAX_positive by (simp add: isDouble_def)

text \<open>
  In double precision, the symmetrizer gives a symmetric tensor of finite doubles back
  unchanged when no entry has a magnitude above half the largest double.
\<close>

lemma TensorSymmetrizer_double_idempotent:
  assumes len: "length ks = 9"
    and sym: "ks ! 3 = ks ! 1" "ks ! 6 = ks ! 2" "ks ! 7 = ks ! 5"
    and fin: "\<forall>k\<in>set ks. isDouble k \<and> \<bar>2 * k\<bar> \<le> DBL_MAX"
  shows "concat (TensorSymmetrizer_double (map Finite ks)) = map Finite ks"
proof -
  have entry: "fmul half (fadd (Finite (ks ! i)) (Finite (ks ! i))) = Finite (ks ! i)" if "i < 9" for i
  proof -
    from that len have "ks ! i \<in> set ks" by simp
    with fin show ?thesis by (intro half_of_sum_self) simp_all
  qed
  have nth: "map Finite ks ! i = Finite (ks ! i)" if "i < 9" for i
    using that len by simp
  have "concat (TensorSymmetrizer_double (map Finite ks)) =
      [Finite (ks ! 0), Finite (ks ! 1), Finite (ks ! 2), Finite (ks ! 3), Finite (ks ! 4),
       Finite (ks ! 5), Finite (ks ! 6), Finite (ks ! 7), Finite (ks ! 8)]"
    by (simp add: TensorSymmetrizer_double_def nth sym entry del: fadd.simps fmul.simps)
  also have "\<dots> = map Finite (map ((!) ks) [0..<length ks])"
    unfolding len by (simp add: upt_0_9)
  also have "\<dots> = map Finite ks"
    by (simp only: map_nth)
  finally show ?thesis .
qed

section \<open>The per-point arithmetic: theorems\<close>

text \<open>
  C4. For every array \<open>g\<close> of nine reals, read as \<open>g[3*i+j] = du_i/dx_j\<close>, the Tensor
  Symmetrizer returns a 3 by 3 matrix \<open>S\<close> with
  \<open>S[i][j] = S[j][i] = 0.5 * (g[3*i+j] + g[3*j+i])\<close> for all \<open>i, j\<close> in \<open>{0, 1, 2}\<close>.
  The matrix is symmetric for every input, and there is no error case: the function is
  total and its result type has no fault.
\<close>

theorem TensorSymmetrizer_symmetric_average:
  assumes "length g = 9"
  shows "is3x3 (TensorSymmetrizer g) \<and>
         (\<forall>i<3. \<forall>j<3. TensorSymmetrizer g ! i ! j = TensorSymmetrizer g ! j ! i \<and>
                       TensorSymmetrizer g ! j ! i = 0.5 * (g ! (3 * i + j) + g ! (3 * j + i)))"
proof -
  have ij: "TensorSymmetrizer g ! i ! j = 0.5 * (g ! (3 * i + j) + g ! (3 * j + i))"
    if "i < 3" "j < 3" for i j
    using that TensorSymmetrizer_entries [of g] by blast
  have ji: "TensorSymmetrizer g ! j ! i = 0.5 * (g ! (3 * i + j) + g ! (3 * j + i))"
    if "i < 3" "j < 3" for i j
    using ij [OF that(2) that(1)] by (simp only: add.commute)
  show ?thesis
  proof (intro conjI allI impI)
    show "is3x3 (TensorSymmetrizer g)" by (rule is3x3_TensorSymmetrizer)
  next
    fix i j :: nat
    assume "i < 3" "j < 3"
    then show "TensorSymmetrizer g ! i ! j = TensorSymmetrizer g ! j ! i"
      using ij [of i j] ji [of i j] by (simp only:)
  next
    fix i j :: nat
    assume "i < 3" "j < 3"
    then show "TensorSymmetrizer g ! j ! i = 0.5 * (g ! (3 * i + j) + g ! (3 * j + i))"
      by (rule ji)
  qed
qed

theorem TensorSymmetrizer_symmetric_average_witness:
  "length [1, 2, 3, 4, 5, 6, 7, 8, 9 :: real] = 9 \<and>
   TensorSymmetrizer [1, 2, 3, 4, 5, 6, 7, 8, 9] ! 0 ! 2 = TensorSymmetrizer [1, 2, 3, 4, 5, 6, 7, 8, 9] ! 2 ! 0 \<and>
   TensorSymmetrizer [1, 2, 3, 4, 5, 6, 7, 8, 9] ! 2 ! 0 = 0.5 * (3 + 7) \<and>
   TensorSymmetrizer [1, 2, 3, 4, 5, 6, 7, 8, 9] = [[1, 3, 5], [3, 5, 7], [5, 7, 9]]"
  using TensorSymmetrizer_symmetric_average [of "[1, 2, 3, 4, 5, 6, 7, 8, 9]"]
  by (simp add: TensorSymmetrizer_def)

text \<open>
  C10. The claim is that on every tensor that is already symmetric the Tensor Symmetrizer
  changes nothing, component for component. The code computes in double precision, where
  the sum \<open>x + x\<close> of lines 170, 175 and 180 overflows for a finite \<open>x\<close> above half the
  largest double: on the symmetric tensor with the largest double on the diagonal and zero
  elsewhere, entry \<open>[0][0]\<close> of the result is infinite and differs from the input.
\<close>

theorem TensorSymmetrizer_overflow_counterexample:
  "length overflowTensor = 9 \<and> isDouble DBL_MAX \<and> isDouble 0 \<and>
   overflowTensor ! 1 = overflowTensor ! 3 \<and> overflowTensor ! 2 = overflowTensor ! 6 \<and>
   overflowTensor ! 5 = overflowTensor ! 7 \<and>
   overflowTensor ! (3 * 0 + 0) = Finite DBL_MAX \<and>
   TensorSymmetrizer_double overflowTensor ! 0 ! 0 = PlusInfinity \<and>
   \<not> feq (TensorSymmetrizer_double overflowTensor ! 0 ! 0) (overflowTensor ! (3 * 0 + 0))"
proof -
  have "DBL_MAX < 2 * DBL_MAX" using DBL_MAX_positive by simp
  with isDouble_DBL_MAX have "fmul half (fadd (Finite DBL_MAX) (Finite DBL_MAX)) = PlusInfinity"
    by (rule half_of_sum_self_overflow)
  then have "TensorSymmetrizer_double overflowTensor ! 0 ! 0 = PlusInfinity"
    by (simp add: TensorSymmetrizer_double_def overflowTensor_def)
  moreover have "overflowTensor ! (3 * 0 + 0) = Finite DBL_MAX"
    and "length overflowTensor = 9"
    and "overflowTensor ! 1 = overflowTensor ! 3" and "overflowTensor ! 2 = overflowTensor ! 6"
    and "overflowTensor ! 5 = overflowTensor ! 7"
    by (simp_all add: overflowTensor_def)
  ultimately show ?thesis
    using isDouble_DBL_MAX isDouble_0 by (simp add: feq_def)
qed

text \<open>
  C10, as amended. In exact real arithmetic, on a tensor that is already symmetric, that is
  an array \<open>g\<close> of nine reals with \<open>g[3*i+j] = g[3*j+i]\<close> for all \<open>i, j\<close>, the
  Tensor Symmetrizer changes nothing: entry \<open>[i][j]\<close> of the result is
  \<open>g[3*i+j]\<close>, and the rows of the result, read one after the other, are \<open>g\<close>
  again.
\<close>

theorem TensorSymmetrizer_idempotent:
  assumes len: "length g = 9"
    and sym: "\<forall>i<3. \<forall>j<3. g ! (3 * i + j) = g ! (3 * j + i)"
  shows "(\<forall>i<3. \<forall>j<3. TensorSymmetrizer g ! i ! j = g ! (3 * i + j)) \<and>
         concat (TensorSymmetrizer g) = g"
proof -
  have e: "g ! 3 = g ! 1" "g ! 6 = g ! 2" "g ! 7 = g ! 5"
    using sym [rule_format, of 1 0] sym [rule_format, of 2 0] sym [rule_format, of 2 1]
    by (simp_all del: add_2_eq_Suc' add_2_eq_Suc)
  have entries: "\<forall>i<3. \<forall>j<3. TensorSymmetrizer g ! i ! j = g ! (3 * i + j)"
    by (simp add: all_less_3 TensorSymmetrizer_def e del: add_2_eq_Suc' add_2_eq_Suc)
  have "concat (TensorSymmetrizer g) = [g ! 0, g ! 1, g ! 2, g ! 3, g ! 4, g ! 5, g ! 6, g ! 7, g ! 8]"
    by (simp add: TensorSymmetrizer_def e)
  also have "\<dots> = map ((!) g) [0..<length g]"
    unfolding len by (simp add: upt_0_9)
  also have "\<dots> = g"
    by (rule map_nth)
  finally show ?thesis using entries by blast
qed

theorem TensorSymmetrizer_idempotent_witness:
  "length [1, 2, 3, 2, 4, 5, 3, 5, 6 :: real] = 9 \<and>
   [1, 2, 3, 2, 4, 5, 3, 5, 6 :: real] ! (3 * 0 + 1) = [1, 2, 3, 2, 4, 5, 3, 5, 6] ! (3 * 1 + 0) \<and>
   TensorSymmetrizer [1, 2, 3, 2, 4, 5, 3, 5, 6] ! 1 ! 2 = 5 \<and>
   concat (TensorSymmetrizer [1, 2, 3, 2, 4, 5, 3, 5, 6]) = [1, 2, 3, 2, 4, 5, 3, 5, 6]"
proof -
  have "\<forall>i<3. \<forall>j<3. [1, 2, 3, 2, 4, 5, 3, 5, 6 :: real] ! (3 * i + j) = [1, 2, 3, 2, 4, 5, 3, 5, 6] ! (3 * j + i)"
    by (simp add: all_less_3 del: add_2_eq_Suc' add_2_eq_Suc)
  from TensorSymmetrizer_idempotent [OF _ this] show ?thesis
    by (simp add: all_less_3)
qed

text \<open>
  C1. For every symmetric 3 by 3 tensor \<open>S\<close> and every unit normal \<open>n\<close>, the vector
  of the Normal Projector is to equal the reference formula
  \<open>tau = 2 * (S n - (n S n) n)\<close> component for component; the comment at line 158 of
  the source states that formula for the vector computed below it. The loops of lines 182 to
  203 subtract where the formula adds: at the shear tensor with \<open>S[0][1] = S[1][0] = 1\<close>
  and the normal \<open>(1, 0, 0)\<close> the projector gives \<open>(0, -2, 0)\<close> where the formula
  gives \<open>(0, 2, 0)\<close>.
\<close>

theorem NormalProjector_reference_counterexample:
  "is3x3 [[0, 1, 0], [1, 0, 0], [0, 0, 0]] \<and> symmetric3 [[0, 1, 0], [1, 0, 0], [0, 0, 0]] \<and>
   dot3 [1, 0, 0] [1, 0, 0] = 1 \<and>
   NormalProjector [[0, 1, 0], [1, 0, 0], [0, 0, 0]] [1, 0, 0] [0, 0, 0] = [0, - 2, 0] \<and>
   tau_reference [[0, 1, 0], [1, 0, 0], [0, 0, 0]] [1, 0, 0] = [0, 2, 0] \<and>
   NormalProjector [[0, 1, 0], [1, 0, 0], [0, 0, 0]] [1, 0, 0] [0, 0, 0]
     \<noteq> tau_reference [[0, 1, 0], [1, 0, 0], [0, 0, 0]] [1, 0, 0]"
  by (simp add: is3x3_def symmetric3_def dot3_def NormalProjector_def nS_def nSn_def
      tau_reference_def matvec3_def upt_0_3)

text \<open>
  C2. For every gradient tensor \<open>g\<close> of nine components and every normal \<open>n\<close> of three
  components, of unit length or not, the vector computed at a point is the exact negation
  of the reference formula: with \<open>S\<close> the symmetrized \<open>g\<close> it is
  \<open>- 2 * (S n) + 2 * (n S n) * n\<close>, that is \<open>(-1)\<close> times \<open>2 * (S n - (n S n) n)\<close>.
\<close>

theorem kernel_is_negated_reference:
  assumes "length g = 9" and "length n = 3" and "length w0 = 3"
  shows "NormalProjector (TensorSymmetrizer g) n w0 =
           [- 2 * (matvec3 (TensorSymmetrizer g) n ! 0)
              + 2 * dot3 n (matvec3 (TensorSymmetrizer g) n) * n ! 0,
            - 2 * (matvec3 (TensorSymmetrizer g) n ! 1)
              + 2 * dot3 n (matvec3 (TensorSymmetrizer g) n) * n ! 1,
            - 2 * (matvec3 (TensorSymmetrizer g) n ! 2)
              + 2 * dot3 n (matvec3 (TensorSymmetrizer g) n) * n ! 2] \<and>
         NormalProjector (TensorSymmetrizer g) n w0 =
           map (\<lambda>x. (- 1) * x) (tau_reference (TensorSymmetrizer g) n)"
proof -
  have "NormalProjector (TensorSymmetrizer g) n w0 = map uminus (tau_reference (TensorSymmetrizer g) n)"
    using assms(3) by (rule NormalProjector_negates_reference)
  then show ?thesis by (simp add: tau_reference_def algebra_simps)
qed

theorem kernel_is_negated_reference_witness:
  "length [1, 2, 3, 4, 5, 6, 7, 8, 9 :: real] = 9 \<and> length [0, 0, 2 :: real] = 3 \<and>
   length [0, 0, 0 :: real] = 3 \<and>
   NormalProjector (TensorSymmetrizer [1, 2, 3, 4, 5, 6, 7, 8, 9]) [0, 0, 2] [0, 0, 0] = [- 20, - 28, 108] \<and>
   tau_reference (TensorSymmetrizer [1, 2, 3, 4, 5, 6, 7, 8, 9]) [0, 0, 2] = [20, 28, - 108]"
  using kernel_is_negated_reference [of "[1, 2, 3, 4, 5, 6, 7, 8, 9]" "[0, 0, 2]" "[0, 0, 0]"]
  by (simp add: tau_reference_def matvec3_def dot3_def TensorSymmetrizer_def)

text \<open>
  C3. For every symmetric 3 by 3 tensor \<open>S\<close> and every normal \<open>n\<close> of unit length
  (\<open>n . n = 1\<close>), the vector \<open>tau\<close> of the Normal Projector is tangential:
  \<open>tau . n = 0\<close>, exactly.
\<close>

theorem NormalProjector_tangential:
  assumes "is3x3 S" and "symmetric3 S" and "length n = 3" and "dot3 n n = 1"
    and "length w0 = 3"
  shows "dot3 (NormalProjector S n w0) n = 0"
  using dot3_NormalProjector [OF assms(5), of S n] assms(4) by simp

theorem NormalProjector_tangential_witness:
  "is3x3 [[1, 3, 5], [3, 5, 7], [5, 7, 9]] \<and> symmetric3 [[1, 3, 5], [3, 5, 7], [5, 7, 9]] \<and>
   length [3 / 5, 0, 4 / 5 :: real] = 3 \<and> dot3 [3 / 5, 0, 4 / 5] [3 / 5, 0, 4 / 5] = 1 \<and>
   length [0, 0, 0 :: real] = 3 \<and>
   dot3 (NormalProjector [[1, 3, 5], [3, 5, 7], [5, 7, 9]] [3 / 5, 0, 4 / 5] [0, 0, 0]) [3 / 5, 0, 4 / 5] = 0"
proof -
  have h: "is3x3 [[1, 3, 5], [3, 5, 7], [5, 7, 9]]" "symmetric3 [[1, 3, 5], [3, 5, 7], [5, 7, 9]]"
    "length [3 / 5, 0, 4 / 5 :: real] = 3" "dot3 [3 / 5, 0, 4 / 5] [3 / 5, 0, 4 / 5] = 1"
    "length [0, 0, 0 :: real] = 3"
    by (simp_all add: is3x3_def symmetric3_def dot3_def)
  from NormalProjector_tangential [OF h] h show ?thesis by simp
qed

section \<open>The loop and the containers: lemmas\<close>

lemma int_of_vtkIdType_small: "n < 2 ^ 31 \<Longrightarrow> int_of_vtkIdType n = int n"
  unfolding int_of_vtkIdType_def
  by (simp add: signed_of_nat signed_take_bit_int_eq_self)

lemma NormalProjector_pointValue:
  "length w0 = 3 \<Longrightarrow> NormalProjector (TensorSymmetrizer g) n w0 = pointValue g n"
  by (simp add: pointValue_def NormalProjector_closed)

lemma length_pointValue: "length (pointValue g n) = 3"
  by (simp add: pointValue_def NormalProjector_closed)

lemma count_list_upt: "count_list [0..<k] i = (if i < k then 1 else 0)"
  by (induction k) (auto simp: less_Suc_eq)

lemma pointLoop_append:
  "pointLoop g n (xs @ ys) s =
     (case pointLoop g n xs s of Inl f \<Rightarrow> Inl f | Inr s' \<Rightarrow> pointLoop g n ys s')"
  by (induction xs arbitrary: s) (simp_all split: sum.splits)

lemma GetTuple_full:
  assumes "GetTuple (Some a) i buffer = Inr t" and "length (Tuples a ! i) = length buffer"
  shows "t = Tuples a ! i \<and> i < length (Tuples a)"
  using assms by (simp add: GetTuple_def split: if_splits)

lemma perPoint_Inr:
  assumes run: "perPoint (Some ga) (Some na) i s = Inr s'"
    and g9: "length (Tuples ga ! i) = 9" "length (velocityGradient s) = 9"
    and n3: "length (Tuples na ! i) = 3" "length (normal s) = 3"
    and w3: "length (wallShearRate s) = 3"
    and c3: "NumberOfComponents (wallShearRateArray s) = 3"
  shows "s' = s\<lparr>velocityGradient := Tuples ga ! i, normal := Tuples na ! i,
                wallShearRate := pointValue (Tuples ga ! i) (Tuples na ! i),
                wallShearRateArray := (wallShearRateArray s)
                  \<lparr>Tuples := (Tuples (wallShearRateArray s))[i := pointValue (Tuples ga ! i) (Tuples na ! i)]\<rparr>,
                written := written s @ [i]\<rparr>"
proof -
  from run obtain g n where g: "GetTuple (Some ga) i (velocityGradient s) = Inr g"
    and n: "GetTuple (Some na) i (normal s) = Inr n"
    and s': "s' = s\<lparr>velocityGradient := g, normal := n,
                wallShearRate := NormalProjector (TensorSymmetrizer g) n (wallShearRate s),
                wallShearRateArray := SetTuple i (NormalProjector (TensorSymmetrizer g) n (wallShearRate s)) (wallShearRateArray s),
                written := written s @ [i]\<rparr>"
    by (auto simp: perPoint_def Let_def split: sum.splits)
  have "g = Tuples ga ! i" using GetTuple_full [OF g] g9 by simp
  moreover have "n = Tuples na ! i" using GetTuple_full [OF n] n3 by simp
  ultimately show ?thesis
    using s' w3 c3 by (simp add: NormalProjector_pointValue SetTuple_def length_pointValue)
qed

lemma pointLoop_upto:
  assumes "pointLoop (Some ga) (Some na) [0..<k] s0 = Inr s"
    and "\<forall>i<k. length (Tuples ga ! i) = 9" and "\<forall>i<k. length (Tuples na ! i) = 3"
    and "length (velocityGradient s0) = 9" and "length (normal s0) = 3"
    and "length (wallShearRate s0) = 3"
    and "NumberOfComponents (wallShearRateArray s0) = 3"
    and "k \<le> length (Tuples (wallShearRateArray s0))"
  shows "written s = written s0 @ [0..<k] \<and>
         length (velocityGradient s) = 9 \<and> length (normal s) = 3 \<and> length (wallShearRate s) = 3 \<and>
         Name (wallShearRateArray s) = Name (wallShearRateArray s0) \<and>
         NumberOfComponents (wallShearRateArray s) = 3 \<and>
         length (Tuples (wallShearRateArray s)) = length (Tuples (wallShearRateArray s0)) \<and>
         (\<forall>i<k. Tuples (wallShearRateArray s) ! i = pointValue (Tuples ga ! i) (Tuples na ! i)) \<and>
         (\<forall>i\<ge>k. Tuples (wallShearRateArray s) ! i = Tuples (wallShearRateArray s0) ! i)"
  using assms
proof (induction k arbitrary: s)
  case 0
  then show ?case by simp
next
  case (Suc k)
  from Suc.prems(1) obtain s1 where s1: "pointLoop (Some ga) (Some na) [0..<k] s0 = Inr s1"
    and step: "perPoint (Some ga) (Some na) k s1 = Inr s"
    by (auto simp: pointLoop_append split: sum.splits)
  have IH: "written s1 = written s0 @ [0..<k] \<and>
         length (velocityGradient s1) = 9 \<and> length (normal s1) = 3 \<and> length (wallShearRate s1) = 3 \<and>
         Name (wallShearRateArray s1) = Name (wallShearRateArray s0) \<and>
         NumberOfComponents (wallShearRateArray s1) = 3 \<and>
         length (Tuples (wallShearRateArray s1)) = length (Tuples (wallShearRateArray s0)) \<and>
         (\<forall>i<k. Tuples (wallShearRateArray s1) ! i = pointValue (Tuples ga ! i) (Tuples na ! i)) \<and>
         (\<forall>i\<ge>k. Tuples (wallShearRateArray s1) ! i = Tuples (wallShearRateArray s0) ! i)"
    using Suc.prems by (intro Suc.IH [OF s1]) simp_all
  have s: "s = s1\<lparr>velocityGradient := Tuples ga ! k, normal := Tuples na ! k,
                wallShearRate := pointValue (Tuples ga ! k) (Tuples na ! k),
                wallShearRateArray := (wallShearRateArray s1)
                  \<lparr>Tuples := (Tuples (wallShearRateArray s1))[k := pointValue (Tuples ga ! k) (Tuples na ! k)]\<rparr>,
                written := written s1 @ [k]\<rparr>"
    using IH Suc.prems(2,3) by (intro perPoint_Inr [OF step]) simp_all
  have k: "k < length (Tuples (wallShearRateArray s1))"
    using IH Suc.prems(8) by simp
  show ?case
    unfolding s using IH k Suc.prems(2,3)
    by (simp add: nth_list_update less_Suc_eq length_pointValue)
qed

text \<open>Whatever the arrays hold, an iteration changes neither the name, nor the number of
  components, nor the number of tuples of the array under construction.\<close>

lemma perPoint_shape:
  assumes "perPoint g n i s = Inr s'"
  shows "Name (wallShearRateArray s') = Name (wallShearRateArray s) \<and>
         NumberOfComponents (wallShearRateArray s') = NumberOfComponents (wallShearRateArray s) \<and>
         length (Tuples (wallShearRateArray s')) = length (Tuples (wallShearRateArray s))"
  using assms by (auto simp: perPoint_def Let_def SetTuple_def split: sum.splits)

lemma pointLoop_shape:
  assumes "pointLoop g n xs s = Inr s'"
  shows "Name (wallShearRateArray s') = Name (wallShearRateArray s) \<and>
         NumberOfComponents (wallShearRateArray s') = NumberOfComponents (wallShearRateArray s) \<and>
         length (Tuples (wallShearRateArray s')) = length (Tuples (wallShearRateArray s))"
  using assms
proof (induction xs arbitrary: s)
  case Nil
  then show ?case by simp
next
  case (Cons i xs)
  from Cons.prems obtain s1 where 1: "perPoint g n i s = Inr s1"
    and 2: "pointLoop g n xs s1 = Inr s'"
    by (auto split: sum.splits)
  from perPoint_shape [OF 1] Cons.IH [OF 2] show ?case by simp
qed

lemma wallShearRateLoop_shape:
  assumes "wallShearRateLoop u this surface = Inr s"
  shows "Name (wallShearRateArray s) = outputArrayName this \<and>
         NumberOfComponents (wallShearRateArray s) = 3 \<and>
         length (Tuples (wallShearRateArray s)) = nat (int_of_vtkIdType (GetNumberOfPoints surface))"
  using pointLoop_shape [OF assms [unfolded wallShearRateLoop_def Let_def]]
  by (simp add: newWallShearRateArray_def)

lemma wallShearRateLoop_values:
  assumes run: "wallShearRateLoop u this surface = Inr s"
    and N: "GetNumberOfPoints surface < 2 ^ 31"
    and ga: "GetArray (PointData surface) gradientArrayName = Some ga"
      "\<forall>i<GetNumberOfPoints surface. length (Tuples ga ! i) = 9"
    and na: "GetNormals (PointData surface) = Some na"
      "\<forall>i<GetNumberOfPoints surface. length (Tuples na ! i) = 3"
  shows "written s = [0..<GetNumberOfPoints surface] \<and>
         (\<forall>i<GetNumberOfPoints surface.
            Tuples (wallShearRateArray s) ! i = pointValue (Tuples ga ! i) (Tuples na ! i))"
proof -
  have n: "nat (int_of_vtkIdType (GetNumberOfPoints surface)) = GetNumberOfPoints surface"
    using N by (simp add: int_of_vtkIdType_small)
  have loop: "pointLoop (Some ga) (Some na) [0..<GetNumberOfPoints surface]
           \<lparr>velocityGradient = freshBuffer u 9, normal = freshBuffer u 3,
            wallShearRate = freshBuffer u 3,
            wallShearRateArray = newWallShearRateArray u this (int (GetNumberOfPoints surface)),
            written = []\<rparr> = Inr s"
    using run N by (simp add: wallShearRateLoop_def Let_def ga(1) na(1) int_of_vtkIdType_small)
  from pointLoop_upto [OF loop ga(2) na(2)] show ?thesis
    by (simp add: freshBuffer_def newWallShearRateArray_def)
qed

lemma find_replaceOrAppend: "find (\<lambda>b. Name b = Name a) (replaceOrAppend a bs) = Some a"
  by (induction bs) simp_all

lemma GetArray_AddArray: "GetArray (AddArray a pd) (Name a) = Some a"
  by (simp add: GetArray_def AddArray_def find_replaceOrAppend)

lemma replaceOrAppend_fresh:
  "\<forall>b\<in>set bs. Name b \<noteq> Name a \<Longrightarrow> replaceOrAppend a bs = bs @ [a]"
  by (induction bs) simp_all

lemma RequestData_success:
  assumes "RequestData u co this input output = Inr r" and "Errors r = []"
  obtains v s where "VelocityArrayName this = Some v"
    and "wallShearRateLoop u this (outputSurface co this input v) = Inr s"
    and "Output r = (outputSurface co this input v)
           \<lparr>PointData := AddArray (wallShearRateArray s) (PointData (outputSurface co this input v))\<rparr>"
    and "ReturnCode r = 1"
  using assms
  by (auto simp: RequestData_def Let_def DeepCopy_def split: option.splits sum.splits)

text \<open>Every call that comes back returns 1, with or without an error reported.\<close>

lemma RequestData_returns_1:
  "RequestData u co this input output = Inr r \<Longrightarrow> ReturnCode r = 1"
  by (auto simp: RequestData_def Let_def split: option.splits sum.splits)

lemma perPoint_no_fault:
  assumes "i < length (Tuples ga)" and "length (Tuples ga ! i) = 9" and "length (velocityGradient s) = 9"
    and "i < length (Tuples na)" and "length (Tuples na ! i) = 3" and "length (normal s) = 3"
  shows "\<exists>s'. perPoint (Some ga) (Some na) i s = Inr s'"
  using assms by (simp add: perPoint_def GetTuple_def Let_def)

lemma pointLoop_no_fault:
  assumes "k \<le> length (Tuples ga)" and "\<forall>i<k. length (Tuples ga ! i) = 9"
    and "k \<le> length (Tuples na)" and "\<forall>i<k. length (Tuples na ! i) = 3"
    and "length (velocityGradient s0) = 9" and "length (normal s0) = 3"
    and "length (wallShearRate s0) = 3"
    and "NumberOfComponents (wallShearRateArray s0) = 3"
    and "k \<le> length (Tuples (wallShearRateArray s0))"
  shows "\<exists>s. pointLoop (Some ga) (Some na) [0..<k] s0 = Inr s"
  using assms
proof (induction k)
  case 0
  then show ?case by simp
next
  case (Suc k)
  then obtain s1 where s1: "pointLoop (Some ga) (Some na) [0..<k] s0 = Inr s1"
    by auto
  have inv: "length (velocityGradient s1) = 9 \<and> length (normal s1) = 3"
    using pointLoop_upto [OF s1] Suc.prems by simp
  have "\<exists>s. perPoint (Some ga) (Some na) k s1 = Inr s"
    using inv Suc.prems by (intro perPoint_no_fault) simp_all
  then show ?case
    using s1 by (auto simp: pointLoop_append)
qed

text \<open>
  On a surface whose point count fits an \<^verbatim>\<open>int\<close> and whose gradient and normals arrays
  have a tuple of 9, respectively 3, components for every point, the pass has no fault: with
  a velocity array name that the input mesh knows, \<^verbatim>\<open>RequestData\<close> comes back without
  an error.
\<close>

lemma RequestData_no_fault:
  assumes v: "VelocityArrayName this = Some v" and a: "GetArray (PointData input) v = Some a"
    and N: "GetNumberOfPoints (outputSurface co this input v) < 2 ^ 31"
    and ga: "GetArray (PointData (outputSurface co this input v)) gradientArrayName = Some ga"
      "GetNumberOfPoints (outputSurface co this input v) \<le> length (Tuples ga)"
      "\<forall>i<GetNumberOfPoints (outputSurface co this input v). length (Tuples ga ! i) = 9"
    and na: "GetNormals (PointData (outputSurface co this input v)) = Some na"
      "GetNumberOfPoints (outputSurface co this input v) \<le> length (Tuples na)"
      "\<forall>i<GetNumberOfPoints (outputSurface co this input v). length (Tuples na ! i) = 3"
  shows "\<exists>r. RequestData u co this input output = Inr r \<and> Errors r = [] \<and> ReturnCode r = 1"
proof -
  have "\<exists>s. pointLoop (Some ga) (Some na) [0..<GetNumberOfPoints (outputSurface co this input v)]
           \<lparr>velocityGradient = freshBuffer u 9, normal = freshBuffer u 3,
            wallShearRate = freshBuffer u 3,
            wallShearRateArray = newWallShearRateArray u this
              (int (GetNumberOfPoints (outputSurface co this input v))),
            written = []\<rparr> = Inr s"
    using ga(2,3) na(2,3)
    by (intro pointLoop_no_fault) (simp_all add: freshBuffer_def newWallShearRateArray_def)
  then obtain s where "wallShearRateLoop u this (outputSurface co this input v) = Inr s"
    using N by (auto simp: wallShearRateLoop_def Let_def ga(1) na(1) int_of_vtkIdType_small)
  then show ?thesis
    by (simp add: RequestData_def v a Let_def)
qed

subsection \<open>The definitions evaluated on the small mesh\<close>

lemma all_less_2: "(\<forall>i<(2::nat). P i) \<longleftrightarrow> P 0 \<and> P 1"
  by (auto simp: less_Suc_eq numeral_2_eq_2)

lemma upt_0_2: "[0..<2] = [0, 1]"
  by (simp add: upt_rec)

lemma replicate_2: "replicate 2 x = [x, x]"
  by (simp add: numeral_2_eq_2)

lemma GetArray_exampleVolume:
  "GetArray (PointData exampleVolume) ''Velocity'' =
     Some \<lparr>Name = ''Velocity'', NumberOfComponents = 3, Tuples = [[0, 0, 0], [0, 1, 0]]\<rparr>"
  by (simp add: exampleVolume_def GetArray_def)

lemma GetArray_staleVolume:
  "GetArray (PointData staleVolume) ''Velocity'' =
     Some \<lparr>Name = ''Velocity'', NumberOfComponents = 3, Tuples = [[0, 0, 0], [0, 1, 0]]\<rparr>"
  by (simp add: staleVolume_def GetArray_def)

lemma outputSurface_example:
  "outputSurface exampleCollaborators this exampleVolume ''Velocity'' = exampleSurface"
  by (simp add: outputSurface_def exampleCollaborators_def exampleGradientFilter_def
      exampleGeometryFilter_def exampleNormalsFilter_def exampleVolume_def exampleSurface_def
      AddArray_def gradientArrayName_def)

lemma outputSurface_stale:
  "outputSurface exampleCollaborators this staleVolume ''Velocity'' = staleSurface"
  by (simp add: outputSurface_def exampleCollaborators_def exampleGradientFilter_def
      exampleGeometryFilter_def exampleNormalsFilter_def staleVolume_def staleSurface_def
      AddArray_def gradientArrayName_def)

lemma wallShearRateLoop_example:
  "wallShearRateLoop exampleMemory this exampleSurface =
     Inr \<lparr>velocityGradient = [1, 2, 3, 4, 5, 6, 7, 8, 9], normal = [0, 0, 1],
          wallShearRate = [- 10, - 14, 0],
          wallShearRateArray = \<lparr>Name = outputArrayName this, NumberOfComponents = 3,
                                 Tuples = [[0, - 2, 0], [- 10, - 14, 0]]\<rparr>,
          written = [0, 1]\<rparr>"
  by (simp add: wallShearRateLoop_def exampleSurface_def GetArray_def gradientArrayName_def
      GetNormals_def GetNumberOfPoints_def int_of_vtkIdType_small upt_0_2 upt_0_3 upt_0_9
      perPoint_def GetTuple_def freshBuffer_def exampleMemory_def newWallShearRateArray_def
      NormalProjector_def TensorSymmetrizer_def nS_def nSn_def SetTuple_def Let_def replicate_2)

lemma wallShearRateLoop_stale:
  "wallShearRateLoop exampleMemory this staleSurface =
     Inr \<lparr>velocityGradient = [1, 2, 3, 4, 5, 6, 7, 8, 9], normal = [0, 0, 1],
          wallShearRate = [- 10, - 14, 0],
          wallShearRateArray = \<lparr>Name = outputArrayName this, NumberOfComponents = 3,
                                 Tuples = [[0, - 2, 0], [- 10, - 14, 0]]\<rparr>,
          written = [0, 1]\<rparr>"
  by (simp add: wallShearRateLoop_def staleSurface_def GetArray_def gradientArrayName_def
      GetNormals_def GetNumberOfPoints_def int_of_vtkIdType_small upt_0_2 upt_0_3 upt_0_9
      perPoint_def GetTuple_def freshBuffer_def exampleMemory_def newWallShearRateArray_def
      NormalProjector_def TensorSymmetrizer_def nS_def nSn_def SetTuple_def Let_def replicate_2)

lemma RequestData_example:
  assumes "VelocityArrayName this = Some ''Velocity''"
  shows "RequestData exampleMemory exampleCollaborators this exampleVolume output =
     Inr \<lparr>ReturnCode = 1, Errors = [],
          Output = exampleSurface\<lparr>PointData := AddArray
            \<lparr>Name = outputArrayName this, NumberOfComponents = 3,
             Tuples = [[0, - 2, 0], [- 10, - 14, 0]]\<rparr>
            (PointData exampleSurface)\<rparr>\<rparr>"
  using assms
  by (simp add: RequestData_def GetArray_exampleVolume outputSurface_example
      wallShearRateLoop_example DeepCopy_def Let_def)

lemma RequestData_stale:
  assumes "VelocityArrayName this = Some ''Velocity''"
  shows "RequestData exampleMemory exampleCollaborators this staleVolume output =
     Inr \<lparr>ReturnCode = 1, Errors = [],
          Output = staleSurface\<lparr>PointData := AddArray
            \<lparr>Name = outputArrayName this, NumberOfComponents = 3,
             Tuples = [[0, - 2, 0], [- 10, - 14, 0]]\<rparr>
            (PointData staleSurface)\<rparr>\<rparr>"
  using assms
  by (simp add: RequestData_def GetArray_staleVolume outputSurface_stale
      wallShearRateLoop_stale DeepCopy_def Let_def)

lemma replaceOrAppend_existing:
  assumes "\<exists>b\<in>set bs. Name b = Name a"
  shows "\<exists>k<length bs. Name (bs ! k) = Name a \<and> (\<forall>j<k. Name (bs ! j) \<noteq> Name a) \<and>
           replaceOrAppend a bs = bs[k := a]"
  using assms
proof (induction bs)
  case Nil
  then show ?case by simp
next
  case (Cons b bs)
  show ?case
  proof (cases "Name b = Name a")
    case True
    then have "0 < length (b # bs) \<and> Name ((b # bs) ! 0) = Name a \<and>
        (\<forall>j<0. Name ((b # bs) ! j) \<noteq> Name a) \<and> replaceOrAppend a (b # bs) = (b # bs)[0 := a]"
      by simp
    then show ?thesis by (rule exI [of _ 0])
  next
    case False
    with Cons.prems have "\<exists>c\<in>set bs. Name c = Name a" by auto
    from Cons.IH [OF this] obtain k where k: "k < length bs" "Name (bs ! k) = Name a"
      "\<forall>j<k. Name (bs ! j) \<noteq> Name a" "replaceOrAppend a bs = bs[k := a]"
      by blast
    have "\<forall>j<Suc k. Name ((b # bs) ! j) \<noteq> Name a"
      using False k(3) by (auto simp: less_Suc_eq_0_disj)
    with False k have "Suc k < length (b # bs) \<and> Name ((b # bs) ! Suc k) = Name a \<and>
        (\<forall>j<Suc k. Name ((b # bs) ! j) \<noteq> Name a) \<and>
        replaceOrAppend a (b # bs) = (b # bs)[Suc k := a]"
      by simp
    then show ?thesis by (rule exI [of _ "Suc k"])
  qed
qed

subsection \<open>The definitions evaluated on the surface of \<open>2^32\<close> points\<close>

lemma int_of_vtkIdType_wraps: "int_of_vtkIdType (2 ^ 32) = 0"
  unfolding int_of_vtkIdType_def by simp

lemma int_of_vtkIdType_wraps_numeral: "int_of_vtkIdType 4294967296 = 0"
  using int_of_vtkIdType_wraps by simp

lemma GetNumberOfPoints_huge: "GetNumberOfPoints hugeSurface = 2 ^ 32"
  by (simp add: GetNumberOfPoints_def hugeSurface_def)

lemma GetArray_hugeVolume:
  "GetArray (PointData hugeVolume) ''Velocity'' =
     Some \<lparr>Name = ''Velocity'', NumberOfComponents = 3, Tuples = replicate (2 ^ 32) [0, 0, 0]\<rparr>"
  by (simp add: hugeVolume_def GetArray_def)

lemma outputSurface_huge:
  "outputSurface uniformCollaborators this hugeVolume ''Velocity'' = hugeSurface"
  by (simp add: outputSurface_def uniformCollaborators_def uniformGradientFilter_def
      exampleGeometryFilter_def uniformNormalsFilter_def hugeVolume_def hugeSurface_def
      AddArray_def gradientArrayName_def)

lemma wallShearRateLoop_huge:
  "wallShearRateLoop u this hugeSurface =
     Inr \<lparr>velocityGradient = freshBuffer u 9, normal = freshBuffer u 3,
          wallShearRate = freshBuffer u 3,
          wallShearRateArray = \<lparr>Name = outputArrayName this, NumberOfComponents = 3, Tuples = []\<rparr>,
          written = []\<rparr>"
  by (simp add: wallShearRateLoop_def GetNumberOfPoints_huge int_of_vtkIdType_wraps_numeral
      newWallShearRateArray_def Let_def)

lemma RequestData_huge:
  assumes "VelocityArrayName this = Some ''Velocity''"
  shows "RequestData u uniformCollaborators this hugeVolume output =
     Inr \<lparr>ReturnCode = 1, Errors = [],
          Output = hugeSurface\<lparr>PointData := AddArray
            \<lparr>Name = outputArrayName this, NumberOfComponents = 3, Tuples = []\<rparr>
            (PointData hugeSurface)\<rparr>\<rparr>"
  using assms
  by (simp add: RequestData_def GetArray_hugeVolume outputSurface_huge
      wallShearRateLoop_huge DeepCopy_def Let_def)

section \<open>RequestData: theorems\<close>

text \<open>
  C5. When no velocity array name is set (\<open>VelocityArrayName\<close> is null), the claim is that
  the call reports the configuration error, leaves the output untouched and returns a
  failure code. The first two hold. The code returned is 1 (line 86), and 1 is also what a
  pass without any error returns (line 214): on the small mesh the call without a name and
  the call that succeeds return the same code.
\<close>

theorem missing_name_code_counterexample:
  "VelocityArrayName New = None \<and>
   RequestData exampleMemory exampleCollaborators New exampleVolume exampleOutput =
     Inr \<lparr>ReturnCode = 1, Errors = [ConfigurationError], Output = exampleOutput\<rparr> \<and>
   \<not> isl (RequestData exampleMemory exampleCollaborators exampleFilter exampleVolume exampleOutput) \<and>
   Errors (projr (RequestData exampleMemory exampleCollaborators exampleFilter exampleVolume exampleOutput)) = [] \<and>
   ReturnCode (projr (RequestData exampleMemory exampleCollaborators exampleFilter exampleVolume exampleOutput)) =
     ReturnCode (projr (RequestData exampleMemory exampleCollaborators New exampleVolume exampleOutput))"
proof -
  have "VelocityArrayName exampleFilter = Some ''Velocity''"
    by (simp add: exampleFilter_def)
  from RequestData_example [OF this, of exampleOutput] show ?thesis
    by (simp add: RequestData_def New_def)
qed

text \<open>
  C5, as amended. When no velocity array name is set, the call reports the configuration
  error ("VelocityArrayName not specified"), produces no output (the output mesh is left as
  it was and no field is attached) and returns 1, the code that a successful pass returns
  as well.
\<close>

theorem missing_name_reported:
  assumes "VelocityArrayName this = None"
  shows "RequestData u co this input output =
           Inr \<lparr>ReturnCode = 1, Errors = [ConfigurationError], Output = output\<rparr>"
  using assms by (simp add: RequestData_def)

theorem missing_name_reported_witness:
  "VelocityArrayName (New\<lparr>WallShearRateArrayName := Some ''Tau''\<rparr>) = None \<and>
   RequestData exampleMemory exampleCollaborators (New\<lparr>WallShearRateArrayName := Some ''Tau''\<rparr>)
       exampleVolume exampleSurface =
     Inr \<lparr>ReturnCode = 1, Errors = [ConfigurationError], Output = exampleSurface\<rparr>"
proof -
  have h: "VelocityArrayName (New\<lparr>WallShearRateArrayName := Some ''Tau''\<rparr>) = None"
    by (simp add: New_def)
  from missing_name_reported [OF h] h show ?thesis by simp
qed

text \<open>
  C6. When the velocity array name is set and the point data of the input mesh has no array
  of that name, the claim is that the call ends in a non-success result with the missing
  field error and leaves the output mesh as it was. Error and untouched output hold. The
  result handed back is 1 (line 94), as after a pass without error: on the small mesh the
  call asking for the absent array \<open>Pressure\<close> and the call that succeeds return the
  same code.
\<close>

theorem missing_field_code_counterexample:
  "VelocityArrayName (New\<lparr>VelocityArrayName := Some ''Pressure''\<rparr>) = Some ''Pressure'' \<and>
   GetArray (PointData exampleVolume) ''Pressure'' = None \<and>
   RequestData exampleMemory exampleCollaborators (New\<lparr>VelocityArrayName := Some ''Pressure''\<rparr>)
       exampleVolume exampleOutput =
     Inr \<lparr>ReturnCode = 1, Errors = [MissingFieldError], Output = exampleOutput\<rparr> \<and>
   \<not> isl (RequestData exampleMemory exampleCollaborators exampleFilter exampleVolume exampleOutput) \<and>
   Errors (projr (RequestData exampleMemory exampleCollaborators exampleFilter exampleVolume exampleOutput)) = [] \<and>
   ReturnCode (projr (RequestData exampleMemory exampleCollaborators exampleFilter exampleVolume exampleOutput)) =
     ReturnCode (projr (RequestData exampleMemory exampleCollaborators
       (New\<lparr>VelocityArrayName := Some ''Pressure''\<rparr>) exampleVolume exampleOutput))"
proof -
  have "VelocityArrayName exampleFilter = Some ''Velocity''"
    by (simp add: exampleFilter_def)
  from RequestData_example [OF this, of exampleOutput] show ?thesis
    by (simp add: RequestData_def New_def exampleVolume_def GetArray_def)
qed

text \<open>
  C6, as amended. When the velocity array name is set and the point data of the input mesh
  has no array of that name, the call reports the missing field error ("VelocityArray with
  name specified does not exist"), leaves the output mesh as it was, with no partial
  output, and returns 1, the code that a successful pass returns as well.
\<close>

theorem missing_field_reported:
  assumes "VelocityArrayName this = Some name"
    and "GetArray (PointData input) name = None"
  shows "RequestData u co this input output =
           Inr \<lparr>ReturnCode = 1, Errors = [MissingFieldError], Output = output\<rparr>"
  using assms by (simp add: RequestData_def)

theorem missing_field_reported_witness:
  "VelocityArrayName (New\<lparr>VelocityArrayName := Some ''U''\<rparr>) = Some ''U'' \<and>
   GetArray (PointData staleVolume) ''U'' = None \<and>
   RequestData exampleMemory exampleCollaborators (New\<lparr>VelocityArrayName := Some ''U''\<rparr>)
       staleVolume exampleSurface =
     Inr \<lparr>ReturnCode = 1, Errors = [MissingFieldError], Output = exampleSurface\<rparr>"
proof -
  have h: "VelocityArrayName (New\<lparr>VelocityArrayName := Some ''U''\<rparr>) = Some ''U''"
    "GetArray (PointData staleVolume) ''U'' = None"
    by (simp_all add: New_def staleVolume_def GetArray_def)
  from missing_field_reported [OF h] h show ?thesis by simp
qed

text \<open>
  C7. The claim is that on every valid input mesh on which the pass succeeds the attached
  field has exactly \<open>N\<close> tuples of 3 components, \<open>N\<close> being the number of points of the
  surface, and that the loop writes every index below \<open>N\<close> exactly once from the tuples
  at that index. Line 136 stores the point count in an \<^verbatim>\<open>int\<close>. On a surface of
  \<open>2^32\<close> points, with a gradient tuple of 9 and a normal tuple of 3 components at every
  point, the stored count is 0: the pass comes back without an error and returns 1, the
  attached field has no tuple, and the loop writes no index.
\<close>

theorem point_count_beyond_int_counterexample:
  "VelocityArrayName exampleFilter = Some ''Velocity'' \<and>
   outputSurface uniformCollaborators exampleFilter hugeVolume ''Velocity'' = hugeSurface \<and>
   GetNumberOfPoints hugeSurface = 2 ^ 32 \<and>
   GetArray (PointData hugeSurface) gradientArrayName =
     Some \<lparr>Name = ''VelocityGradient'', NumberOfComponents = 9,
           Tuples = replicate (2 ^ 32) [0, 1, 0, 1, 0, 0, 0, 0, 0]\<rparr> \<and>
   GetNormals (PointData hugeSurface) =
     Some \<lparr>Name = ''Normals'', NumberOfComponents = 3, Tuples = replicate (2 ^ 32) [0, 0, 1]\<rparr> \<and>
   \<not> isl (RequestData exampleMemory uniformCollaborators exampleFilter hugeVolume exampleOutput) \<and>
   Errors (projr (RequestData exampleMemory uniformCollaborators exampleFilter hugeVolume exampleOutput)) = [] \<and>
   ReturnCode (projr (RequestData exampleMemory uniformCollaborators exampleFilter hugeVolume exampleOutput)) = 1 \<and>
   GetArray (PointData (Output (projr
       (RequestData exampleMemory uniformCollaborators exampleFilter hugeVolume exampleOutput))))
       ''WallShearRate'' =
     Some \<lparr>Name = ''WallShearRate'', NumberOfComponents = 3, Tuples = []\<rparr> \<and>
   written (projr (wallShearRateLoop exampleMemory exampleFilter hugeSurface)) = []"
proof -
  have v: "VelocityArrayName exampleFilter = Some ''Velocity''"
    by (simp add: exampleFilter_def)
  have name: "outputArrayName exampleFilter = ''WallShearRate''"
    by (simp add: outputArrayName_def exampleFilter_def New_def)
  have arrays: "GetArray (PointData hugeSurface) gradientArrayName =
     Some \<lparr>Name = ''VelocityGradient'', NumberOfComponents = 9,
           Tuples = replicate (2 ^ 32) [0, 1, 0, 1, 0, 0, 0, 0, 0]\<rparr>"
    "GetNormals (PointData hugeSurface) =
     Some \<lparr>Name = ''Normals'', NumberOfComponents = 3, Tuples = replicate (2 ^ 32) [0, 0, 1]\<rparr>"
    by (simp_all add: hugeSurface_def GetArray_def GetNormals_def gradientArrayName_def)
  have found: "GetArray (PointData (Output (projr
       (RequestData exampleMemory uniformCollaborators exampleFilter hugeVolume exampleOutput))))
       ''WallShearRate'' =
     Some \<lparr>Name = ''WallShearRate'', NumberOfComponents = 3, Tuples = []\<rparr>"
    unfolding RequestData_huge [OF v] name
    by (simp add: hugeSurface_def AddArray_def GetArray_def)
  have run: "\<not> isl (RequestData exampleMemory uniformCollaborators exampleFilter hugeVolume exampleOutput)"
    "Errors (projr (RequestData exampleMemory uniformCollaborators exampleFilter hugeVolume exampleOutput)) = []"
    "ReturnCode (projr (RequestData exampleMemory uniformCollaborators exampleFilter hugeVolume exampleOutput)) = 1"
    unfolding RequestData_huge [OF v] by simp_all
  have loop: "written (projr (wallShearRateLoop exampleMemory exampleFilter hugeSurface)) = []"
    unfolding wallShearRateLoop_huge by simp
  have surf: "outputSurface uniformCollaborators exampleFilter hugeVolume ''Velocity'' = hugeSurface"
    by (rule outputSurface_huge)
  have N: "GetNumberOfPoints hugeSurface = 2 ^ 32"
    by (rule GetNumberOfPoints_huge)
  from v surf N arrays run found loop show ?thesis
    by (simp only: simp_thms)
qed

text \<open>
  C7, as amended. On a valid input mesh whose surface has fewer than \<open>2^31\<close> points
  and on which the pass succeeds, the field attached to the output has exactly \<open>N\<close>
  tuples of 3 components, \<open>N\<close> being the number of points of the surface with normals;
  the loop writes every index \<open>i\<close> below \<open>N\<close> exactly once, in increasing order, and
  the tuple at \<open>i\<close> is a function of the gradient tuple and the normal tuple at \<open>i\<close>
  alone. Valid means here: the surface has a gradient array with 9 components per tuple and
  a normals array with 3.
\<close>

theorem field_has_one_tuple_per_point:
  assumes run: "RequestData u co this input output = Inr r" and ok: "Errors r = []"
    and v: "VelocityArrayName this = Some v"
    and N: "GetNumberOfPoints (outputSurface co this input v) < 2 ^ 31"
    and ga: "GetArray (PointData (outputSurface co this input v)) gradientArrayName = Some ga"
      "\<forall>i<GetNumberOfPoints (outputSurface co this input v). length (Tuples ga ! i) = 9"
    and na: "GetNormals (PointData (outputSurface co this input v)) = Some na"
      "\<forall>i<GetNumberOfPoints (outputSurface co this input v). length (Tuples na ! i) = 3"
  shows "\<exists>s. wallShearRateLoop u this (outputSurface co this input v) = Inr s \<and>
           GetArray (PointData (Output r)) (outputArrayName this) = Some (wallShearRateArray s) \<and>
           NumberOfComponents (wallShearRateArray s) = 3 \<and>
           length (Tuples (wallShearRateArray s)) = GetNumberOfPoints (outputSurface co this input v) \<and>
           written s = [0..<GetNumberOfPoints (outputSurface co this input v)] \<and>
           (\<forall>i<GetNumberOfPoints (outputSurface co this input v).
              count_list (written s) i = 1 \<and>
              length (Tuples (wallShearRateArray s) ! i) = 3 \<and>
              Tuples (wallShearRateArray s) ! i = pointValue (Tuples ga ! i) (Tuples na ! i))"
proof -
  from run ok obtain v' s where v': "VelocityArrayName this = Some v'"
    and loop': "wallShearRateLoop u this (outputSurface co this input v') = Inr s"
    and out': "Output r = (outputSurface co this input v')
           \<lparr>PointData := AddArray (wallShearRateArray s) (PointData (outputSurface co this input v'))\<rparr>"
    by (rule RequestData_success)
  from v v' have "v' = v" by simp
  with loop' out' have loop: "wallShearRateLoop u this (outputSurface co this input v) = Inr s"
    and out: "Output r = (outputSurface co this input v)
           \<lparr>PointData := AddArray (wallShearRateArray s) (PointData (outputSurface co this input v))\<rparr>"
    by simp_all
  note shape = wallShearRateLoop_shape [OF loop]
  note vals = wallShearRateLoop_values [OF loop N ga na]
  have "GetArray (PointData (Output r)) (outputArrayName this) = Some (wallShearRateArray s)"
    using GetArray_AddArray [of "wallShearRateArray s"] shape by (simp add: out)
  moreover have "length (Tuples (wallShearRateArray s)) = GetNumberOfPoints (outputSurface co this input v)"
    using shape N by (simp add: int_of_vtkIdType_small)
  ultimately show ?thesis
    using loop shape vals by (auto simp: count_list_upt length_pointValue)
qed

theorem field_has_one_tuple_per_point_witness:
  "\<not> isl (RequestData exampleMemory exampleCollaborators exampleFilter exampleVolume exampleOutput) \<and>
   Errors (projr (RequestData exampleMemory exampleCollaborators exampleFilter exampleVolume exampleOutput)) = [] \<and>
   VelocityArrayName exampleFilter = Some ''Velocity'' \<and>
   GetNumberOfPoints (outputSurface exampleCollaborators exampleFilter exampleVolume ''Velocity'') = 2 \<and>
   wallShearRateLoop exampleMemory exampleFilter
       (outputSurface exampleCollaborators exampleFilter exampleVolume ''Velocity'') =
     Inr \<lparr>velocityGradient = [1, 2, 3, 4, 5, 6, 7, 8, 9], normal = [0, 0, 1],
          wallShearRate = [- 10, - 14, 0],
          wallShearRateArray = \<lparr>Name = ''WallShearRate'', NumberOfComponents = 3,
                                 Tuples = [[0, - 2, 0], [- 10, - 14, 0]]\<rparr>,
          written = [0, 1]\<rparr> \<and>
   GetArray (PointData (Output (projr
       (RequestData exampleMemory exampleCollaborators exampleFilter exampleVolume exampleOutput))))
       (outputArrayName exampleFilter) =
     Some \<lparr>Name = ''WallShearRate'', NumberOfComponents = 3, Tuples = [[0, - 2, 0], [- 10, - 14, 0]]\<rparr> \<and>
   pointValue [1, 2, 3, 4, 5, 6, 7, 8, 9] [0, 0, 1] = [- 10, - 14, 0]"
proof -
  let ?ga = "\<lparr>Name = ''VelocityGradient'', NumberOfComponents = 9,
              Tuples = [[0, 1, 0, 1, 0, 0, 0, 0, 0], [1, 2, 3, 4, 5, 6, 7, 8, 9 :: real]]\<rparr>"
  let ?na = "\<lparr>Name = ''Normals'', NumberOfComponents = 3, Tuples = [[1, 0, 0], [0, 0, 1 :: real]]\<rparr>"
  have v: "VelocityArrayName exampleFilter = Some ''Velocity''"
    by (simp add: exampleFilter_def)
  have run: "RequestData exampleMemory exampleCollaborators exampleFilter exampleVolume exampleOutput =
     Inr \<lparr>ReturnCode = 1, Errors = [],
          Output = exampleSurface\<lparr>PointData := AddArray
            \<lparr>Name = outputArrayName exampleFilter, NumberOfComponents = 3,
             Tuples = [[0, - 2, 0], [- 10, - 14, 0]]\<rparr>
            (PointData exampleSurface)\<rparr>\<rparr>"
    by (rule RequestData_example [OF v])
  have ok: "Errors \<lparr>ReturnCode = 1, Errors = [],
          Output = exampleSurface\<lparr>PointData := AddArray
            \<lparr>Name = outputArrayName exampleFilter, NumberOfComponents = 3,
             Tuples = [[0, - 2, 0], [- 10, - 14, 0]]\<rparr>
            (PointData exampleSurface)\<rparr>\<rparr> = []"
    by simp
  have N2: "GetNumberOfPoints exampleSurface = 2"
    by (simp add: GetNumberOfPoints_def exampleSurface_def)
  have N: "GetNumberOfPoints (outputSurface exampleCollaborators exampleFilter exampleVolume ''Velocity'') < 2 ^ 31"
    by (simp add: outputSurface_example N2)
  have ga: "GetArray (PointData (outputSurface exampleCollaborators exampleFilter exampleVolume ''Velocity''))
      gradientArrayName = Some ?ga"
    "\<forall>i<GetNumberOfPoints (outputSurface exampleCollaborators exampleFilter exampleVolume ''Velocity'').
       length (Tuples ?ga ! i) = 9"
    unfolding outputSurface_example N2
    by (simp_all add: exampleSurface_def GetArray_def gradientArrayName_def all_less_2)
  have na: "GetNormals (PointData (outputSurface exampleCollaborators exampleFilter exampleVolume ''Velocity''))
      = Some ?na"
    "\<forall>i<GetNumberOfPoints (outputSurface exampleCollaborators exampleFilter exampleVolume ''Velocity'').
       length (Tuples ?na ! i) = 3"
    unfolding outputSurface_example N2
    by (simp_all add: exampleSurface_def GetNormals_def all_less_2)
  have name: "outputArrayName exampleFilter = ''WallShearRate''"
    by (simp add: outputArrayName_def exampleFilter_def New_def)
  have pv: "pointValue [1, 2, 3, 4, 5, 6, 7, 8, 9] [0, 0, 1] = [- 10, - 14, 0]"
    by (simp add: pointValue_def NormalProjector_def TensorSymmetrizer_def nS_def nSn_def upt_0_3)
  from field_has_one_tuple_per_point [OF run ok v N ga na]
  show ?thesis
    by (simp add: run v N2 outputSurface_example wallShearRateLoop_example name pv)
qed

text \<open>
  C8. The claim is that after a successful pass the output mesh is a copy of the surface
  with normals, with all of that surface's arrays unchanged and exactly one more
  3-component point-indexed field appended under the configured name. Two inputs break it.
  The input \<open>staleVolume\<close> carries an array \<open>WallShearRate\<close>: the surface made of it
  has four arrays and the output has four arrays too, the old \<open>WallShearRate\<close> (second in
  order) having been replaced. On the surface of \<open>2^32\<close> points the appended field has
  no tuple, so it is not indexed by the points.
\<close>

theorem surface_plus_field_counterexample:
  "\<not> isl (RequestData exampleMemory exampleCollaborators exampleFilter staleVolume exampleOutput) \<and>
   Errors (projr (RequestData exampleMemory exampleCollaborators exampleFilter staleVolume exampleOutput)) = [] \<and>
   outputSurface exampleCollaborators exampleFilter staleVolume ''Velocity'' = staleSurface \<and>
   outputArrayName exampleFilter = ''WallShearRate'' \<and>
   length (Arrays (PointData staleSurface)) = 4 \<and>
   length (Arrays (PointData (Output (projr
     (RequestData exampleMemory exampleCollaborators exampleFilter staleVolume exampleOutput))))) = 4 \<and>
   Arrays (PointData staleSurface) ! 1 =
     \<lparr>Name = ''WallShearRate'', NumberOfComponents = 3, Tuples = [[9, 9, 9], [9, 9, 9]]\<rparr> \<and>
   Arrays (PointData (Output (projr
     (RequestData exampleMemory exampleCollaborators exampleFilter staleVolume exampleOutput)))) ! 1 =
     \<lparr>Name = ''WallShearRate'', NumberOfComponents = 3, Tuples = [[0, - 2, 0], [- 10, - 14, 0]]\<rparr> \<and>
   \<not> isl (RequestData exampleMemory uniformCollaborators exampleFilter hugeVolume exampleOutput) \<and>
   Errors (projr (RequestData exampleMemory uniformCollaborators exampleFilter hugeVolume exampleOutput)) = [] \<and>
   outputSurface uniformCollaborators exampleFilter hugeVolume ''Velocity'' = hugeSurface \<and>
   GetNumberOfPoints hugeSurface = 2 ^ 32 \<and>
   Arrays (PointData (Output (projr
     (RequestData exampleMemory uniformCollaborators exampleFilter hugeVolume exampleOutput)))) =
     Arrays (PointData hugeSurface) @
       [\<lparr>Name = ''WallShearRate'', NumberOfComponents = 3, Tuples = []\<rparr>]"
proof -
  have v: "VelocityArrayName exampleFilter = Some ''Velocity''"
    by (simp add: exampleFilter_def)
  have name: "outputArrayName exampleFilter = ''WallShearRate''"
    by (simp add: outputArrayName_def exampleFilter_def New_def)
  have stale: "\<not> isl (RequestData exampleMemory exampleCollaborators exampleFilter staleVolume exampleOutput) \<and>
   Errors (projr (RequestData exampleMemory exampleCollaborators exampleFilter staleVolume exampleOutput)) = [] \<and>
   outputSurface exampleCollaborators exampleFilter staleVolume ''Velocity'' = staleSurface \<and>
   outputArrayName exampleFilter = ''WallShearRate'' \<and>
   length (Arrays (PointData staleSurface)) = 4 \<and>
   length (Arrays (PointData (Output (projr
     (RequestData exampleMemory exampleCollaborators exampleFilter staleVolume exampleOutput))))) = 4 \<and>
   Arrays (PointData staleSurface) ! 1 =
     \<lparr>Name = ''WallShearRate'', NumberOfComponents = 3, Tuples = [[9, 9, 9], [9, 9, 9]]\<rparr> \<and>
   Arrays (PointData (Output (projr
     (RequestData exampleMemory exampleCollaborators exampleFilter staleVolume exampleOutput)))) ! 1 =
     \<lparr>Name = ''WallShearRate'', NumberOfComponents = 3, Tuples = [[0, - 2, 0], [- 10, - 14, 0]]\<rparr>"
    by (simp add: RequestData_stale [OF v] outputSurface_stale name staleSurface_def AddArray_def)
  have huge: "\<not> isl (RequestData exampleMemory uniformCollaborators exampleFilter hugeVolume exampleOutput)"
    "Errors (projr (RequestData exampleMemory uniformCollaborators exampleFilter hugeVolume exampleOutput)) = []"
    unfolding RequestData_huge [OF v] by simp_all
  have arrays: "Arrays (PointData (Output (projr
     (RequestData exampleMemory uniformCollaborators exampleFilter hugeVolume exampleOutput)))) =
     Arrays (PointData hugeSurface) @
       [\<lparr>Name = ''WallShearRate'', NumberOfComponents = 3, Tuples = []\<rparr>]"
    unfolding RequestData_huge [OF v] name
    by (simp add: hugeSurface_def AddArray_def)
  have surf: "outputSurface uniformCollaborators exampleFilter hugeVolume ''Velocity'' = hugeSurface"
    by (rule outputSurface_huge)
  have N: "GetNumberOfPoints hugeSurface = 2 ^ 32"
    by (rule GetNumberOfPoints_huge)
  from stale huge surf N arrays show ?thesis
    by (simp only: simp_thms)
qed

text \<open>
  C8, as amended. After a successful pass the output mesh is a copy of the surface with
  normals (same points, cells, cell data and normals mark) whose point data has received one
  new array with the configured output name and 3 components. The new array has as many
  tuples as the point count stored in the \<^verbatim>\<open>int\<close> of line 136, which is one tuple per
  point when the surface has fewer than \<open>2^31\<close> points. If no array of the surface has
  the configured output name, all arrays of the surface are in the output unchanged and in
  order, followed by the new array and nothing else. If an array of the surface has that
  name, the first such array is replaced in place by the new array, no array is added and
  every other array is unchanged.
\<close>

theorem output_is_surface_plus_field:
  assumes run: "RequestData u co this input output = Inr r" and ok: "Errors r = []"
    and v: "VelocityArrayName this = Some v"
  shows "\<exists>w. Name w = outputArrayName this \<and> NumberOfComponents w = 3 \<and>
           length (Tuples w) = nat (int_of_vtkIdType (GetNumberOfPoints (outputSurface co this input v))) \<and>
           (GetNumberOfPoints (outputSurface co this input v) < 2 ^ 31 \<longrightarrow>
              length (Tuples w) = GetNumberOfPoints (outputSurface co this input v)) \<and>
           ((\<forall>a\<in>set (Arrays (PointData (outputSurface co this input v))). Name a \<noteq> outputArrayName this) \<longrightarrow>
              Output r = (outputSurface co this input v)
                \<lparr>PointData := (PointData (outputSurface co this input v))
                   \<lparr>Arrays := Arrays (PointData (outputSurface co this input v)) @ [w]\<rparr>\<rparr>) \<and>
           ((\<exists>a\<in>set (Arrays (PointData (outputSurface co this input v))). Name a = outputArrayName this) \<longrightarrow>
              (\<exists>k<length (Arrays (PointData (outputSurface co this input v))).
                 Name (Arrays (PointData (outputSurface co this input v)) ! k) = outputArrayName this \<and>
                 (\<forall>j<k. Name (Arrays (PointData (outputSurface co this input v)) ! j) \<noteq> outputArrayName this) \<and>
                 Output r = (outputSurface co this input v)
                   \<lparr>PointData := (PointData (outputSurface co this input v))
                      \<lparr>Arrays := (Arrays (PointData (outputSurface co this input v)))[k := w]\<rparr>\<rparr>))"
proof -
  let ?surface = "outputSurface co this input v"
  let ?arrays = "Arrays (PointData ?surface)"
  from run ok obtain v' s where v': "VelocityArrayName this = Some v'"
    and loop': "wallShearRateLoop u this (outputSurface co this input v') = Inr s"
    and out': "Output r = (outputSurface co this input v')
           \<lparr>PointData := AddArray (wallShearRateArray s) (PointData (outputSurface co this input v'))\<rparr>"
    by (rule RequestData_success)
  from v v' have "v' = v" by simp
  with loop' out' have loop: "wallShearRateLoop u this ?surface = Inr s"
    and out: "Output r = ?surface\<lparr>PointData := AddArray (wallShearRateArray s) (PointData ?surface)\<rparr>"
    by simp_all
  let ?w = "wallShearRateArray s"
  note shape = wallShearRateLoop_shape [OF loop]
  have out2: "Output r = ?surface\<lparr>PointData := (PointData ?surface)\<lparr>Arrays := replaceOrAppend ?w ?arrays\<rparr>\<rparr>"
    by (simp add: out AddArray_def)
  have len: "length (Tuples ?w) = GetNumberOfPoints ?surface" if "GetNumberOfPoints ?surface < 2 ^ 31"
    using shape that by (simp add: int_of_vtkIdType_small)
  have fresh: "Output r = ?surface\<lparr>PointData := (PointData ?surface)\<lparr>Arrays := ?arrays @ [?w]\<rparr>\<rparr>"
    if "\<forall>a\<in>set ?arrays. Name a \<noteq> outputArrayName this"
  proof -
    from that shape have "replaceOrAppend ?w ?arrays = ?arrays @ [?w]"
      by (intro replaceOrAppend_fresh) simp
    with out2 show ?thesis by simp
  qed
  have taken: "\<exists>k<length ?arrays. Name (?arrays ! k) = outputArrayName this \<and>
       (\<forall>j<k. Name (?arrays ! j) \<noteq> outputArrayName this) \<and>
       Output r = ?surface\<lparr>PointData := (PointData ?surface)\<lparr>Arrays := ?arrays[k := ?w]\<rparr>\<rparr>"
    if "\<exists>a\<in>set ?arrays. Name a = outputArrayName this"
  proof -
    from that shape have "\<exists>b\<in>set ?arrays. Name b = Name ?w" by simp
    from replaceOrAppend_existing [OF this] obtain k where "k < length ?arrays"
      "Name (?arrays ! k) = Name ?w" "\<forall>j<k. Name (?arrays ! j) \<noteq> Name ?w"
      "replaceOrAppend ?w ?arrays = ?arrays[k := ?w]"
      by blast
    with shape out2 have "k < length ?arrays \<and> Name (?arrays ! k) = outputArrayName this \<and>
       (\<forall>j<k. Name (?arrays ! j) \<noteq> outputArrayName this) \<and>
       Output r = ?surface\<lparr>PointData := (PointData ?surface)\<lparr>Arrays := ?arrays[k := ?w]\<rparr>\<rparr>"
      by simp
    then show ?thesis by (intro exI [of _ k]) simp
  qed
  have "Name ?w = outputArrayName this \<and> NumberOfComponents ?w = 3 \<and>
        length (Tuples ?w) = nat (int_of_vtkIdType (GetNumberOfPoints ?surface))"
    using shape by simp
  with len fresh taken show ?thesis
    by (intro exI [of _ ?w] conjI impI) simp_all
qed

theorem output_is_surface_plus_field_witness:
  "\<not> isl (RequestData exampleMemory exampleCollaborators exampleFilter exampleVolume exampleOutput) \<and>
   Errors (projr (RequestData exampleMemory exampleCollaborators exampleFilter exampleVolume exampleOutput)) = [] \<and>
   VelocityArrayName exampleFilter = Some ''Velocity'' \<and>
   outputSurface exampleCollaborators exampleFilter exampleVolume ''Velocity'' = exampleSurface \<and>
   GetNumberOfPoints exampleSurface = 2 \<and>
   map Name (Arrays (PointData exampleSurface)) = [''Velocity'', ''VelocityGradient'', ''Normals''] \<and>
   outputArrayName exampleFilter = ''WallShearRate'' \<and>
   Output (projr (RequestData exampleMemory exampleCollaborators exampleFilter exampleVolume exampleOutput)) =
     exampleSurface\<lparr>PointData := (PointData exampleSurface)\<lparr>Arrays := Arrays (PointData exampleSurface) @
       [\<lparr>Name = ''WallShearRate'', NumberOfComponents = 3, Tuples = [[0, - 2, 0], [- 10, - 14, 0]]\<rparr>]\<rparr>\<rparr> \<and>
   \<not> isl (RequestData exampleMemory exampleCollaborators exampleFilter staleVolume exampleOutput) \<and>
   Errors (projr (RequestData exampleMemory exampleCollaborators exampleFilter staleVolume exampleOutput)) = [] \<and>
   outputSurface exampleCollaborators exampleFilter staleVolume ''Velocity'' = staleSurface \<and>
   map Name (Arrays (PointData staleSurface)) =
     [''Velocity'', ''WallShearRate'', ''VelocityGradient'', ''Normals''] \<and>
   Output (projr (RequestData exampleMemory exampleCollaborators exampleFilter staleVolume exampleOutput)) =
     staleSurface\<lparr>PointData := (PointData staleSurface)\<lparr>Arrays := (Arrays (PointData staleSurface))
       [1 := \<lparr>Name = ''WallShearRate'', NumberOfComponents = 3, Tuples = [[0, - 2, 0], [- 10, - 14, 0]]\<rparr>]\<rparr>\<rparr>"
proof -
  have v: "VelocityArrayName exampleFilter = Some ''Velocity''"
    by (simp add: exampleFilter_def)
  have name: "outputArrayName exampleFilter = ''WallShearRate''"
    by (simp add: outputArrayName_def exampleFilter_def New_def)
  note run = RequestData_example [OF v, of exampleOutput]
  note run' = RequestData_stale [OF v, of exampleOutput]
  have ok: "Errors \<lparr>ReturnCode = 1, Errors = [], Output = out\<rparr> = []" for out
    by simp
  have N2: "GetNumberOfPoints exampleSurface = 2"
    by (simp add: GetNumberOfPoints_def exampleSurface_def)
  have names: "map Name (Arrays (PointData exampleSurface)) = [''Velocity'', ''VelocityGradient'', ''Normals'']"
    by (simp add: exampleSurface_def)
  have names': "map Name (Arrays (PointData staleSurface)) =
     [''Velocity'', ''WallShearRate'', ''VelocityGradient'', ''Normals'']"
    by (simp add: staleSurface_def)
  have fresh: "\<not> isl (RequestData exampleMemory exampleCollaborators exampleFilter exampleVolume exampleOutput) \<and>
   Errors (projr (RequestData exampleMemory exampleCollaborators exampleFilter exampleVolume exampleOutput)) = [] \<and>
   Output (projr (RequestData exampleMemory exampleCollaborators exampleFilter exampleVolume exampleOutput)) =
     exampleSurface\<lparr>PointData := (PointData exampleSurface)\<lparr>Arrays := Arrays (PointData exampleSurface) @
       [\<lparr>Name = ''WallShearRate'', NumberOfComponents = 3, Tuples = [[0, - 2, 0], [- 10, - 14, 0]]\<rparr>]\<rparr>\<rparr>"
    using output_is_surface_plus_field [OF run ok v]
    by (simp add: run name outputSurface_example AddArray_def exampleSurface_def)
  have taken: "\<not> isl (RequestData exampleMemory exampleCollaborators exampleFilter staleVolume exampleOutput) \<and>
   Errors (projr (RequestData exampleMemory exampleCollaborators exampleFilter staleVolume exampleOutput)) = [] \<and>
   Output (projr (RequestData exampleMemory exampleCollaborators exampleFilter staleVolume exampleOutput)) =
     staleSurface\<lparr>PointData := (PointData staleSurface)\<lparr>Arrays := (Arrays (PointData staleSurface))
       [1 := \<lparr>Name = ''WallShearRate'', NumberOfComponents = 3, Tuples = [[0, - 2, 0], [- 10, - 14, 0]]\<rparr>]\<rparr>\<rparr>"
    using output_is_surface_plus_field [OF run' ok v]
    by (simp add: run' name outputSurface_stale AddArray_def staleSurface_def)
  from v name N2 names names' fresh taken outputSurface_example [of exampleFilter]
    outputSurface_stale [of exampleFilter]
  show ?thesis by (simp only: simp_thms)
qed

text \<open>
  C9. After a successful pass the new field is in the point data of the output under its
  own name, and that name is \<open>WallShearRate\<close> when the caller has set no output array
  name, and the caller's name when one is set.
\<close>

theorem field_name_default_or_given:
  assumes run: "RequestData u co this input output = Inr r" and ok: "Errors r = []"
  shows "\<exists>v s. VelocityArrayName this = Some v \<and>
           wallShearRateLoop u this (outputSurface co this input v) = Inr s \<and>
           GetArray (PointData (Output r)) (Name (wallShearRateArray s)) = Some (wallShearRateArray s) \<and>
           (WallShearRateArrayName this = None \<longrightarrow> Name (wallShearRateArray s) = ''WallShearRate'') \<and>
           (\<forall>name. WallShearRateArrayName this = Some name \<longrightarrow> Name (wallShearRateArray s) = name)"
proof -
  from run ok obtain v s where v: "VelocityArrayName this = Some v"
    and loop: "wallShearRateLoop u this (outputSurface co this input v) = Inr s"
    and out: "Output r = (outputSurface co this input v)
           \<lparr>PointData := AddArray (wallShearRateArray s) (PointData (outputSurface co this input v))\<rparr>"
    by (rule RequestData_success)
  have "Name (wallShearRateArray s) = outputArrayName this"
    using wallShearRateLoop_shape [OF loop] by simp
  then have names: "(WallShearRateArrayName this = None \<longrightarrow> Name (wallShearRateArray s) = ''WallShearRate'') \<and>
           (\<forall>name. WallShearRateArrayName this = Some name \<longrightarrow> Name (wallShearRateArray s) = name)"
    by (simp add: outputArrayName_def)
  have "PointData (Output r) = AddArray (wallShearRateArray s) (PointData (outputSurface co this input v))"
    unfolding out by simp
  then have found: "GetArray (PointData (Output r)) (Name (wallShearRateArray s)) = Some (wallShearRateArray s)"
    by (simp only: GetArray_AddArray)
  show ?thesis
  proof (intro exI conjI)
    show "VelocityArrayName this = Some v" by (rule v)
    show "wallShearRateLoop u this (outputSurface co this input v) = Inr s" by (rule loop)
    show "GetArray (PointData (Output r)) (Name (wallShearRateArray s)) = Some (wallShearRateArray s)"
      by (rule found)
    show "WallShearRateArrayName this = None \<longrightarrow> Name (wallShearRateArray s) = ''WallShearRate''"
      using names by (rule conjunct1)
    show "\<forall>name. WallShearRateArrayName this = Some name \<longrightarrow> Name (wallShearRateArray s) = name"
      using names by (rule conjunct2)
  qed
qed

theorem field_name_default_or_given_witness:
  "WallShearRateArrayName exampleFilter = None \<and>
   \<not> isl (RequestData exampleMemory exampleCollaborators exampleFilter exampleVolume exampleOutput) \<and>
   Errors (projr (RequestData exampleMemory exampleCollaborators exampleFilter exampleVolume exampleOutput)) = [] \<and>
   GetArray (PointData (Output (projr
       (RequestData exampleMemory exampleCollaborators exampleFilter exampleVolume exampleOutput))))
       ''WallShearRate'' =
     Some \<lparr>Name = ''WallShearRate'', NumberOfComponents = 3, Tuples = [[0, - 2, 0], [- 10, - 14, 0]]\<rparr> \<and>
   WallShearRateArrayName (exampleFilter\<lparr>WallShearRateArrayName := Some ''Tau''\<rparr>) = Some ''Tau'' \<and>
   \<not> isl (RequestData exampleMemory exampleCollaborators
       (exampleFilter\<lparr>WallShearRateArrayName := Some ''Tau''\<rparr>) exampleVolume exampleOutput) \<and>
   Errors (projr (RequestData exampleMemory exampleCollaborators
       (exampleFilter\<lparr>WallShearRateArrayName := Some ''Tau''\<rparr>) exampleVolume exampleOutput)) = [] \<and>
   GetArray (PointData (Output (projr (RequestData exampleMemory exampleCollaborators
       (exampleFilter\<lparr>WallShearRateArrayName := Some ''Tau''\<rparr>) exampleVolume exampleOutput))))
       ''Tau'' =
     Some \<lparr>Name = ''Tau'', NumberOfComponents = 3, Tuples = [[0, - 2, 0], [- 10, - 14, 0]]\<rparr> \<and>
   GetArray (PointData (Output (projr (RequestData exampleMemory exampleCollaborators
       (exampleFilter\<lparr>WallShearRateArrayName := Some ''Tau''\<rparr>) exampleVolume exampleOutput))))
       ''WallShearRate'' = None"
proof -
  let ?tau = "exampleFilter\<lparr>WallShearRateArrayName := Some ''Tau''\<rparr>"
  have v: "VelocityArrayName exampleFilter = Some ''Velocity''"
    and vt: "VelocityArrayName ?tau = Some ''Velocity''"
    by (simp_all add: exampleFilter_def)
  have w: "WallShearRateArrayName exampleFilter = None"
    and wt: "WallShearRateArrayName ?tau = Some ''Tau''"
    by (simp_all add: exampleFilter_def New_def)
  have name: "outputArrayName exampleFilter = ''WallShearRate''"
    and namet: "outputArrayName ?tau = ''Tau''"
    by (simp_all add: outputArrayName_def w)
  note run = RequestData_example [OF v, of exampleOutput]
  note runt = RequestData_example [OF vt, of exampleOutput]
  have ok: "Errors \<lparr>ReturnCode = 1, Errors = [], Output = out\<rparr> = []" for out
    by simp
  from field_name_default_or_given [OF run ok] w
  obtain s where "wallShearRateLoop exampleMemory exampleFilter
        (outputSurface exampleCollaborators exampleFilter exampleVolume ''Velocity'') = Inr s"
    and "GetArray (PointData (Output (projr (RequestData exampleMemory exampleCollaborators
        exampleFilter exampleVolume exampleOutput)))) (Name (wallShearRateArray s)) = Some (wallShearRateArray s)"
    and "Name (wallShearRateArray s) = ''WallShearRate''"
    unfolding run v by auto
  then have default: "GetArray (PointData (Output (projr (RequestData exampleMemory exampleCollaborators
        exampleFilter exampleVolume exampleOutput)))) ''WallShearRate'' =
      Some \<lparr>Name = ''WallShearRate'', NumberOfComponents = 3, Tuples = [[0, - 2, 0], [- 10, - 14, 0]]\<rparr>"
    by (auto simp: outputSurface_example wallShearRateLoop_example name)
  from field_name_default_or_given [OF runt ok] wt
  obtain s where "wallShearRateLoop exampleMemory ?tau
        (outputSurface exampleCollaborators ?tau exampleVolume ''Velocity'') = Inr s"
    and "GetArray (PointData (Output (projr (RequestData exampleMemory exampleCollaborators
        ?tau exampleVolume exampleOutput)))) (Name (wallShearRateArray s)) = Some (wallShearRateArray s)"
    and "Name (wallShearRateArray s) = ''Tau''"
    unfolding runt vt by auto
  then have given: "GetArray (PointData (Output (projr (RequestData exampleMemory exampleCollaborators
        ?tau exampleVolume exampleOutput)))) ''Tau'' =
      Some \<lparr>Name = ''Tau'', NumberOfComponents = 3, Tuples = [[0, - 2, 0], [- 10, - 14, 0]]\<rparr>"
    by (auto simp: outputSurface_example wallShearRateLoop_example namet)
  have absent: "GetArray (PointData (Output (projr (RequestData exampleMemory exampleCollaborators
        ?tau exampleVolume exampleOutput)))) ''WallShearRate'' = None"
    unfolding runt namet by (simp add: exampleSurface_def AddArray_def GetArray_def)
  have "\<not> isl (RequestData exampleMemory exampleCollaborators exampleFilter exampleVolume exampleOutput)"
    and "Errors (projr (RequestData exampleMemory exampleCollaborators exampleFilter exampleVolume exampleOutput)) = []"
    unfolding run by simp_all
  moreover have "\<not> isl (RequestData exampleMemory exampleCollaborators ?tau exampleVolume exampleOutput)"
    and "Errors (projr (RequestData exampleMemory exampleCollaborators ?tau exampleVolume exampleOutput)) = []"
    unfolding runt by simp_all
  ultimately show ?thesis
    using w wt default given absent by (simp only: simp_thms)
qed

end
